theory Spec2Isabelle
  imports Complex_Main "HOL-Library.AList" "HOL-Library.Extended_Nat"
begin

section \<open>Data model\<close>

text \<open>
  The three scripts read the same JSON documents. A grid is a list of rows of Python
  integers; a training example is a dictionary with the keys \<open>input\<close> and \<open>output\<close>, a
  test example has \<open>input\<close> only (the fields \<open>ex_input\<close> and \<open>ex_output\<close>); a challenge has the keys \<open>train\<close> and \<open>test\<close>. The
  challenge and solution files are dictionaries keyed by challenge identifier: they are
  association lists in insertion order, with pairwise distinct keys.
\<close>

type_synonym grid = "int list list"

record test_example =
  ex_input :: grid

record train_example = test_example +
  ex_output :: grid

record challenge =
  train :: "train_example list"
  test :: "test_example list"

type_synonym challenges = "(string \<times> challenge) list"

type_synonym solutions = "(string \<times> grid list) list"

text \<open>Exceptions are values: a function that can raise returns \<open>error + 'a\<close>.\<close>

datatype error = ValueError | KeyError | ZeroDivisionError

definition and_then :: "error + 'a \<Rightarrow> ('a \<Rightarrow> error + 'b) \<Rightarrow> error + 'b" where
  "and_then r f = (case r of Inl e \<Rightarrow> Inl e | Inr x \<Rightarrow> f x)"

text \<open>Running a list of fallible steps in order; the first exception ends the loop.\<close>

primrec collect :: "(error + 'a) list \<Rightarrow> error + 'a list" where
  "collect [] = Inr []"
| "collect (r # rs) = and_then r (\<lambda>x. and_then (collect rs) (\<lambda>xs. Inr (x # xs)))"

section \<open>The numpy operations the scripts use\<close>

text \<open>
  \<open>np.array(grid).shape\<close> for a list of lists of integers: the empty list is a
  one-dimensional array of length 0, rows of one length give a two-dimensional array,
  and rows of different lengths raise \<open>ValueError\<close> (inhomogeneous shape).
\<close>

definition np_shape :: "grid \<Rightarrow> error + nat list" where
  "np_shape g =
     (if g = [] then Inr [0]
      else if list_all (\<lambda>row. length row = length (hd g)) g
      then Inr [length g, length (hd g)]
      else Inl ValueError)"

text \<open>The tuple assignment \<open>h, w = shape\<close> raises \<open>ValueError\<close> unless the shape has two entries.\<close>

definition unpack2 :: "nat list \<Rightarrow> error + (nat \<times> nat)" where
  "unpack2 s = (case s of [h, w] \<Rightarrow> Inr (h, w) | _ \<Rightarrow> Inl ValueError)"

text \<open>
  One endpoint of a slice \<open>a:b\<close> on an axis of length \<open>n\<close>: a negative endpoint counts
  from the end, and the result is clipped to \<open>0..n\<close>.
\<close>

definition slice_index :: "int \<Rightarrow> nat \<Rightarrow> nat" where
  "slice_index k n = (if k < 0 then nat (max 0 (k + int n)) else min (nat k) n)"

text \<open>
  \<open>target[r0:r1, c0:c1] = src\<close> on an \<open>H\<close> by \<open>W\<close> target, for a source of shape
  \<open>(h, w)\<close>. The source is broadcast into the selected block: each of its dimensions
  must equal the block's or be 1, otherwise numpy raises \<open>ValueError\<close>.
\<close>

definition set_slice ::
  "nat \<Rightarrow> nat \<Rightarrow> grid \<Rightarrow> int \<times> int \<Rightarrow> int \<times> int \<Rightarrow> nat \<Rightarrow> nat \<Rightarrow> grid \<Rightarrow> error + grid" where
  "set_slice H W target rs cs h w src =
     (let r0 = slice_index (fst rs) H; r1 = slice_index (snd rs) H;
          c0 = slice_index (fst cs) W; c1 = slice_index (snd cs) W;
          nr = r1 - r0; nc = c1 - c0
      in if (h = nr \<or> h = 1) \<and> (w = nc \<or> w = 1)
         then Inr (map (\<lambda>i. map (\<lambda>j.
                if r0 \<le> i \<and> i < r0 + nr \<and> c0 \<le> j \<and> j < c0 + nc
                then src ! (if h = 1 then 0 else i - r0) ! (if w = 1 then 0 else j - c0)
                else target ! i ! j) [0..<W]) [0..<H])
         else Inl ValueError)"

section \<open>The grid renderer (arc\_visualizer.py)\<close>

definition COLOR_MAP :: "int \<rightharpoonup> string" where
  "COLOR_MAP = map_of
     [(0, ''#000000''), (1, ''#0074D9''), (2, ''#FF4136''), (3, ''#2ECC40''),
      (4, ''#FFDC00''), (5, ''#AAAAAA''), (6, ''#F012BE''), (7, ''#FF851B''),
      (8, ''#7FDBFF''), (9, ''#870C25'')]"

definition PADDING_COLOR :: string where
  "PADDING_COLOR = ''#F0F0F0''"

text \<open>
  A matplotlib axes object, as far as the scripts write to it: the axis limits, whether
  the vertical axis is inverted, the unit squares added as patches, the text labels and
  the title. \<open>empty_axes\<close> is a fresh (or cleared) axes.
\<close>

record rectangle =
  rect_x :: nat
  rect_y :: nat
  facecolor :: string
  edgecolor :: string

record axes =
  xlim :: "int \<times> int"
  ylim :: "int \<times> int"
  y_inverted :: bool
  patches :: "rectangle list"
  texts :: "string list"
  title :: string

definition empty_axes :: axes where
  "empty_axes = \<lparr>xlim = (0, 1), ylim = (0, 1), y_inverted = False, patches = [],
     texts = [], title = []\<rparr>"

text \<open>
  Lines 56 to 74 of \<open>plot_grid\<close>: the grid that is displayed, with its height and width.
  When a dimension is below \<open>max_size\<close> the grid is copied into the centre of a
  \<open>max_size\<close> by \<open>max_size\<close> array filled with \<open>-1\<close>; otherwise it is displayed as it is.
  \<open>np.full\<close> raises \<open>ValueError\<close> for a negative dimension.
\<close>

definition display_grid :: "grid \<Rightarrow> int \<Rightarrow> error + (grid \<times> nat \<times> nat)" where
  "display_grid grid max_size =
     and_then (np_shape grid) (\<lambda>s. and_then (unpack2 s) (\<lambda>(original_height, original_width).
       let use_padding = int original_height < max_size \<or> int original_width < max_size in
       if use_padding then
         (if max_size < 0 then Inl ValueError
          else
            let n = nat max_size;
                padded_grid = replicate n (replicate n (- 1));
                start_h = (max_size - int original_height) div 2;
                start_w = (max_size - int original_width) div 2
            in and_then
                 (set_slice n n padded_grid
                    (start_h, start_h + int original_height)
                    (start_w, start_w + int original_width)
                    original_height original_width grid)
                 (\<lambda>padded_grid. Inr (padded_grid, n, n)))
       else Inr (grid, original_height, original_width)))"

text \<open>
  The expected content of a padded canvas, used to state what \<open>display_grid\<close> computes:
  the cell in row \<open>i\<close> and column \<open>j\<close> of a canvas that holds the \<open>h\<close> by \<open>w\<close> grid \<open>g\<close> with
  its top left corner at row \<open>sh\<close> and column \<open>sw\<close>, and \<open>-1\<close> everywhere else.
\<close>

definition centred :: "grid \<Rightarrow> nat \<Rightarrow> nat \<Rightarrow> nat \<Rightarrow> nat \<Rightarrow> nat \<Rightarrow> nat \<Rightarrow> int" where
  "centred g h w sh sw i j =
     (if sh \<le> i \<and> i < sh + h \<and> sw \<le> j \<and> j < sw + w then g ! (i - sh) ! (j - sw) else - 1)"

text \<open>
  Lines 86 to 101: the square drawn for the cell in row \<open>i\<close> and column \<open>j\<close>. The value
  \<open>-1\<close> is drawn as padding; any other value is looked up in \<open>COLOR_MAP\<close>, which raises
  \<open>KeyError\<close> outside \<open>0..9\<close>.
\<close>

definition cell_patch :: "nat \<Rightarrow> nat \<Rightarrow> int \<Rightarrow> error + rectangle" where
  "cell_patch i j v =
     (if v = - 1
      then Inr \<lparr>rect_x = j, rect_y = i, facecolor = PADDING_COLOR, edgecolor = ''#D0D0D0''\<rparr>
      else case COLOR_MAP v of
             None \<Rightarrow> Inl KeyError
           | Some color \<Rightarrow> Inr \<lparr>rect_x = j, rect_y = i, facecolor = color, edgecolor = ''gray''\<rparr>)"

definition plot_grid :: "axes \<Rightarrow> grid \<Rightarrow> string \<Rightarrow> int \<Rightarrow> error + axes" where
  "plot_grid ax grid ttl max_size =
     and_then (display_grid grid max_size) (\<lambda>(shown, display_height, display_width).
       and_then
         (collect (concat (map (\<lambda>i. map (\<lambda>j. cell_patch i j (shown ! i ! j))
                                       [0..<display_width]) [0..<display_height])))
         (\<lambda>ps. Inr (empty_axes\<lparr>xlim := (0, int display_width), ylim := (0, int display_height),
                        y_inverted := True, patches := ps, title := ttl\<rparr>)))"

text \<open>A loop whose body can raise: the state is threaded through, the first exception ends it.\<close>

primrec foldM :: "('a \<Rightarrow> 's \<Rightarrow> error + 's) \<Rightarrow> 'a list \<Rightarrow> 's \<Rightarrow> error + 's" where
  "foldM f [] s = Inr s"
| "foldM f (x # xs) s = and_then (f x s) (foldM f xs)"

section \<open>The statistics aggregator (arc\_explorer.py)\<close>

text \<open>
  A grid that \<open>np.array\<close> turns into a two-dimensional array: at least one row, and all
  rows of one length.
\<close>

definition two_dimensional :: "grid \<Rightarrow> bool" where
  "two_dimensional g = (g \<noteq> [] \<and> list_all (\<lambda>row. length row = length (hd g)) g)"

record statistics =
  train_counts :: "nat list"
  test_counts :: "nat list"
  input_sizes :: "nat list list"
  output_sizes :: "nat list list"
  unique_values :: "int list"

text \<open>
  Lines 34 to 43, the body of the loop over \<open>challenge['train']\<close>: the two grids become
  arrays (which raises for ragged rows), their shapes are appended and their cells are
  added to the set of values. \<open>flatten\<close> of the array of a grid is the concatenation of
  its rows.
\<close>

definition scan_example ::
  "train_example \<Rightarrow> nat list list \<times> nat list list \<times> int set
     \<Rightarrow> error + (nat list list \<times> nat list list \<times> int set)" where
  "scan_example example =
     (\<lambda>(input_sizes, output_sizes, unique_values).
        and_then (np_shape (ex_input example)) (\<lambda>input_shape.
        and_then (np_shape (ex_output example)) (\<lambda>output_shape.
          Inr (input_sizes @ [input_shape], output_sizes @ [output_shape],
               unique_values \<union> set (concat (ex_input example))
                             \<union> set (concat (ex_output example))))))"

text \<open>Lines 29 to 43, the body of the loop over \<open>challenges.items()\<close>.\<close>

definition scan_challenge ::
  "string \<times> challenge \<Rightarrow> nat list \<times> nat list \<times> nat list list \<times> nat list list \<times> int set
     \<Rightarrow> error + (nat list \<times> nat list \<times> nat list list \<times> nat list list \<times> int set)" where
  "scan_challenge item =
     (\<lambda>(train_counts, test_counts, sizes).
        and_then (foldM scan_example (train (snd item)) sizes) (\<lambda>sizes'.
          Inr (train_counts @ [length (train (snd item))],
               test_counts @ [length (test (snd item))], sizes')))"

text \<open>\<open>h * w for h, w in sizes\<close>: a shape that is not a pair raises \<open>ValueError\<close>.\<close>

definition areas :: "nat list list \<Rightarrow> error + nat list" where
  "areas sizes = collect (map (\<lambda>s. and_then (unpack2 s) (\<lambda>(h, w). Inr (h * w))) sizes)"

text \<open>
  The whole function. The printed minima, maxima and means are not part of the model,
  but \<open>min\<close> and \<open>max\<close> of an empty list raise \<open>ValueError\<close>, at lines 46, 49 and 55 to 58.
  The solutions are only counted for a printed line.
\<close>

definition analyze_data_statistics :: "challenges \<Rightarrow> solutions \<Rightarrow> error + statistics" where
  "analyze_data_statistics challenges solutions =
     and_then (foldM scan_challenge challenges ([], [], [], [], {}))
       (\<lambda>(train_counts, test_counts, input_sizes, output_sizes, unique_values).
          if train_counts = [] then Inl ValueError
          else if test_counts = [] then Inl ValueError
          else and_then (areas input_sizes) (\<lambda>input_areas.
               and_then (areas output_sizes) (\<lambda>output_areas.
                 if input_sizes = [] then Inl ValueError
                 else if output_sizes = [] then Inl ValueError
                 else if input_areas = [] then Inl ValueError
                 else if output_areas = [] then Inl ValueError
                 else Inr \<lparr>train_counts = train_counts, test_counts = test_counts,
                            input_sizes = input_sizes, output_sizes = output_sizes,
                            unique_values = sorted_list_of_set unique_values\<rparr>)))"

text \<open>
  The values of the training examples: every cell of every input and output grid of every
  training example of every challenge.
\<close>

definition train_values :: "challenges \<Rightarrow> int set" where
  "train_values challenges =
     (\<Union>item\<in>set challenges. \<Union>example\<in>set (train (snd item)).
        set (concat (ex_input example)) \<union> set (concat (ex_output example)))"

text \<open>
  The values the specification speaks of: the cells of every input and output grid of
  every example, training and test, of the challenge file.
\<close>

definition dataset_values :: "challenges \<Rightarrow> int set" where
  "dataset_values challenges =
     train_values challenges \<union>
     (\<Union>item\<in>set challenges. \<Union>example\<in>set (test (snd item)). set (concat (ex_input example)))"

section \<open>The interest classifier (arc\_explorer.py)\<close>

text \<open>A grid that \<open>np.array\<close> accepts: all rows have one length (the empty list included).\<close>

definition rectangular :: "grid \<Rightarrow> bool" where
  "rectangular g = list_all (\<lambda>row. length row = length (hd g)) g"

text \<open>
  Lines 82 to 109, the body of the loop over \<open>challenge['train']\<close>. \<open>size\<close> is the product
  of the shape, \<open>len(set(grid.flatten()))\<close> the number of distinct cells; the challenge
  identifier is appended to each list whose test the example passes.
\<close>

definition classify_example ::
  "string \<Rightarrow> train_example
     \<Rightarrow> string list \<times> string list \<times> string list \<times> string list \<times> string list
     \<Rightarrow> error + (string list \<times> string list \<times> string list \<times> string list \<times> string list)" where
  "classify_example challenge_id example =
     (\<lambda>(large_grids, small_grids, many_colors, simple_patterns, size_changes).
        and_then (np_shape (ex_input example)) (\<lambda>input_shape.
        and_then (np_shape (ex_output example)) (\<lambda>output_shape.
          let input_size = prod_list input_shape;
              output_size = prod_list output_shape;
              unique_input = card (set (concat (ex_input example)));
              unique_output = card (set (concat (ex_output example)))
          in Inr (if 200 < input_size \<or> 200 < output_size
                  then large_grids @ [challenge_id] else large_grids,
                  if input_size < 10 \<or> output_size < 10
                  then small_grids @ [challenge_id] else small_grids,
                  if 5 < unique_input \<or> 5 < unique_output
                  then many_colors @ [challenge_id] else many_colors,
                  if unique_input \<le> 2 \<and> unique_output \<le> 2
                  then simple_patterns @ [challenge_id] else simple_patterns,
                  if input_shape \<noteq> output_shape
                  then size_changes @ [challenge_id] else size_changes))))"

text \<open>
  The result: \<open>list(set(...))\<close> of each list, a list without repetitions in no particular
  order, kept as a set.
\<close>

record interesting =
  large_grids :: "string set"
  small_grids :: "string set"
  many_colors :: "string set"
  simple_patterns :: "string set"
  size_changes :: "string set"

definition find_interesting_challenges :: "challenges \<Rightarrow> solutions \<Rightarrow> error + interesting" where
  "find_interesting_challenges challenges solutions =
     and_then
       (foldM (\<lambda>item. foldM (classify_example (fst item)) (train (snd item))) challenges
          ([], [], [], [], []))
       (\<lambda>(large, small, many, simple, changes).
          Inr \<lparr>large_grids = set large, small_grids = set small, many_colors = set many,
               simple_patterns = set simple, size_changes = set changes\<rparr>)"

text \<open>The five tests on a training example, on the grids themselves.\<close>

definition has_large :: "train_example \<Rightarrow> bool" where
  "has_large ex = (200 < length (concat (ex_input ex)) \<or> 200 < length (concat (ex_output ex)))"

definition has_small :: "train_example \<Rightarrow> bool" where
  "has_small ex = (length (concat (ex_input ex)) < 10 \<or> length (concat (ex_output ex)) < 10)"

definition has_many_colors :: "train_example \<Rightarrow> bool" where
  "has_many_colors ex =
     (5 < card (set (concat (ex_input ex))) \<or> 5 < card (set (concat (ex_output ex))))"

definition is_simple :: "train_example \<Rightarrow> bool" where
  "is_simple ex =
     (card (set (concat (ex_input ex))) \<le> 2 \<and> card (set (concat (ex_output ex))) \<le> 2)"

definition changes_size :: "train_example \<Rightarrow> bool" where
  "changes_size ex = (np_shape (ex_input ex) \<noteq> np_shape (ex_output ex))"

text \<open>The identifier \<open>cid\<close>, once for each example of the list that passes the test \<open>P\<close>.\<close>

definition hits :: "(train_example \<Rightarrow> bool) \<Rightarrow> string \<Rightarrow> train_example list \<Rightarrow> string list" where
  "hits P cid exs = map (\<lambda>_. cid) (filter P exs)"

section \<open>The integer histogram (arc\_histogram.py)\<close>

text \<open>
  Lines 45 to 73: the cells of every training input and output, of every test input and,
  when the challenge has an entry in the solutions, of every solution grid, challenge by
  challenge in the order of the file.
\<close>

definition extract_challenge :: "solutions \<Rightarrow> string \<times> challenge \<Rightarrow> int list" where
  "extract_challenge solutions item =
     concat (map (\<lambda>example. concat (ex_input example) @ concat (ex_output example))
                 (train (snd item)))
     @ concat (map (\<lambda>example. concat (ex_input example)) (test (snd item)))
     @ (case map_of solutions (fst item) of
          None \<Rightarrow> []
        | Some solution_outputs \<Rightarrow> concat (map concat solution_outputs))"

definition extract_all_integers :: "challenges \<Rightarrow> solutions \<Rightarrow> int list" where
  "extract_all_integers challenges solutions = concat (map (extract_challenge solutions) challenges)"

text \<open>
  \<open>collections.Counter\<close>: a dictionary from value to count that keeps its keys in the order
  of their first occurrence. \<open>count_one\<close> counts one more occurrence of \<open>x\<close>;
  \<open>counter_get\<close> is \<open>counter.get(k, 0)\<close>.
\<close>

primrec count_one :: "int \<Rightarrow> (int \<times> nat) list \<Rightarrow> (int \<times> nat) list" where
  "count_one x [] = [(x, 1)]"
| "count_one x (p # ps) = (if fst p = x then (x, snd p + 1) # ps else p # count_one x ps)"

definition Counter :: "int list \<Rightarrow> (int \<times> nat) list" where
  "Counter xs = foldl (\<lambda>counter x. count_one x counter) [] xs"

definition counter_get :: "(int \<times> nat) list \<Rightarrow> int \<Rightarrow> nat" where
  "counter_get counter k = (case map_of counter k of None \<Rightarrow> 0 | Some n \<Rightarrow> n)"

text \<open>
  \<open>np.argmax\<close> and \<open>np.argmin\<close>: the index of the first largest (smallest) entry;
  \<open>ValueError\<close> on an empty sequence. \<open>arg_best\<close> scans the rest of the list with the best
  index and value so far, and moves on only to a strictly better entry.
\<close>

primrec arg_best :: "('a \<Rightarrow> 'a \<Rightarrow> bool) \<Rightarrow> nat \<Rightarrow> 'a \<Rightarrow> nat \<Rightarrow> 'a list \<Rightarrow> nat" where
  "arg_best better b bv i [] = b"
| "arg_best better b bv i (x # xs) =
     (if better x bv then arg_best better i x (Suc i) xs else arg_best better b bv (Suc i) xs)"

definition argmax :: "'a::linorder list \<Rightarrow> error + nat" where
  "argmax xs = (case xs of [] \<Rightarrow> Inl ValueError | x # rest \<Rightarrow> Inr (arg_best (\<lambda>a b. b < a) 0 x 1 rest))"

definition argmin :: "'a::linorder list \<Rightarrow> error + nat" where
  "argmin xs = (case xs of [] \<Rightarrow> Inl ValueError | x # rest \<Rightarrow> Inr (arg_best (\<lambda>a b. a < b) 0 x 1 rest))"

text \<open>
  Lines 79 to 113 of \<open>create_histogram\<close>: the ten frequencies and the statistics of the
  text box. \<open>integers\<close> is \<open>range(10)\<close>, so \<open>integers[k]\<close> is \<open>k\<close>. A frequency of zero is
  replaced by infinity before \<open>argmin\<close>. The function returns the counter.
\<close>

record histogram_box =
  frequencies :: "nat list"
  total_count :: nat
  unique_shown :: nat
  most_common :: nat
  most_common_times :: nat
  least_common :: nat

definition create_histogram :: "int list \<Rightarrow> error + (histogram_box \<times> (int \<times> nat) list)" where
  "create_histogram all_integers =
     (let counter = Counter all_integers;
          freqs = map (\<lambda>i. counter_get counter (int i)) [0..<10]
      in and_then (argmax freqs) (\<lambda>most.
         and_then (argmin (map (\<lambda>f. if 0 < f then enat f else \<infinity>) freqs)) (\<lambda>least.
           Inr (\<lparr>frequencies = freqs, total_count = sum_list freqs,
                  unique_shown = length (filter (\<lambda>f. 0 < f) freqs),
                  most_common = most, most_common_times = Max (set freqs),
                  least_common = least\<rparr>, counter))))"

text \<open>
  \<open>max(items, key=lambda x: x[1])\<close> and \<open>min(items, key=lambda x: x[1])\<close>: the first item of
  the largest (smallest) count, in the order of the list; \<open>ValueError\<close> on an empty list.
\<close>

definition max_by_count :: "(int \<times> nat) list \<Rightarrow> error + (int \<times> nat)" where
  "max_by_count items =
     (case items of
        [] \<Rightarrow> Inl ValueError
      | x # xs \<Rightarrow> Inr (foldl (\<lambda>best y. if snd best < snd y then y else best) x xs))"

definition min_by_count :: "(int \<times> nat) list \<Rightarrow> error + (int \<times> nat)" where
  "min_by_count items =
     (case items of
        [] \<Rightarrow> Inl ValueError
      | x # xs \<Rightarrow> Inr (foldl (\<lambda>best y. if snd y < snd best then y else best) x xs))"

text \<open>
  Lines 138 to 164 of \<open>print_statistics\<close>: what is printed. The ratio is a float in the
  source, printed with two decimals; the model keeps the exact quotient.
\<close>

record printed_statistics =
  total_cells :: nat
  unique_found :: nat
  table :: "nat list"
  most_common_value :: "int \<times> nat"
  least_common_value :: "int \<times> nat"
  ratio :: rat

definition print_statistics :: "(int \<times> nat) list \<Rightarrow> error + printed_statistics" where
  "print_statistics counter =
     and_then (max_by_count counter) (\<lambda>most.
     and_then (min_by_count (filter (\<lambda>item. 0 < snd item) counter)) (\<lambda>least.
       if snd least = 0 then Inl ZeroDivisionError
       else Inr \<lparr>total_cells = sum_list (map snd counter),
                 unique_found = length (filter (\<lambda>v. 0 < v) (map snd counter)),
                 table = map (\<lambda>i. counter_get counter (int i)) [0..<10],
                 most_common_value = most, least_common_value = least,
                 ratio = of_nat (snd most) / of_nat (snd least)\<rparr>))"

text \<open>
  Lines 192 to 234 of \<open>main\<close>, after the four files are loaded: the two flags select the
  data, an empty selection ends the run with a message, otherwise the histogram is drawn
  and the statistics are printed.
\<close>

record dataset =
  train_challenges :: challenges
  train_solutions :: solutions
  test_challenges :: challenges
  test_solutions :: solutions

datatype outcome =
  NoDataSelected
| Reported (collected: nat) (box: histogram_box) (printed: printed_statistics)

definition main :: "bool \<Rightarrow> bool \<Rightarrow> dataset \<Rightarrow> error + outcome" where
  "main training_only test_only data =
     (let include_training = \<not> test_only;
          include_test = \<not> training_only;
          train_integers =
            (if include_training
             then extract_all_integers (train_challenges data) (train_solutions data) else []);
          test_integers =
            (if include_test
             then extract_all_integers (test_challenges data) (test_solutions data) else []);
          all_integers = train_integers @ test_integers
      in if all_integers = [] then Inr NoDataSelected
         else and_then (create_histogram all_integers) (\<lambda>(shown, counter).
              and_then (print_statistics counter) (\<lambda>stats.
                Inr (Reported (length all_integers) shown stats))))"

text \<open>
  The number of cells scanned, counted on the grids: for every challenge the cells of
  its training inputs and outputs and of its test inputs, and the cells of its solution
  grids when the solutions have an entry for it.
\<close>

definition n_cells :: "grid \<Rightarrow> nat" where
  "n_cells g = sum_list (map length g)"

definition cells_scanned :: "challenges \<Rightarrow> solutions \<Rightarrow> nat" where
  "cells_scanned challenges solutions =
     (\<Sum>item\<leftarrow>challenges.
        (\<Sum>example\<leftarrow>train (snd item). n_cells (ex_input example) + n_cells (ex_output example))
        + (\<Sum>example\<leftarrow>test (snd item). n_cells (ex_input example))
        + (case map_of solutions (fst item) of
             None \<Rightarrow> 0
           | Some solution_outputs \<Rightarrow> (\<Sum>g\<leftarrow>solution_outputs. n_cells g)))"

section \<open>The challenge composer (arc\_visualizer.py)\<close>

text \<open>The decimal digits of a natural number, as an f-string prints it.\<close>

fun str_nat :: "nat \<Rightarrow> string" where
  "str_nat n =
     (if n < 10 then [''0123456789'' ! n]
      else str_nat (n div 10) @ [''0123456789'' ! (n mod 10)])"

text \<open>
  A matplotlib figure: its title, its size in inches and its axes. \<open>plt.subplot(r, c, k)\<close>
  names an axes by the numbers of rows and columns of a grid and the index \<open>k\<close> of a cell,
  counted from 1 along the rows; the axes are kept in the order of their creation. An
  index outside \<open>1..r*c\<close> raises \<open>ValueError\<close>; a cell that already has an axes gives that
  axes again, a new one is empty.
\<close>

record figure =
  suptitle :: string
  figsize :: "rat \<times> rat"
  panels :: "((nat \<times> nat \<times> nat) \<times> axes) list"

definition subplot :: "figure \<Rightarrow> nat \<Rightarrow> nat \<Rightarrow> nat \<Rightarrow> error + axes" where
  "subplot fig nrows ncols index =
     (if 1 \<le> index \<and> index \<le> nrows * ncols
      then Inr (case map_of (panels fig) (nrows, ncols, index) of
                  Some ax \<Rightarrow> ax
                | None \<Rightarrow> empty_axes)
      else Inl ValueError)"

text \<open>The row and the column of the cell with index \<open>k\<close>, both counted from 1.\<close>

definition cell_of_index :: "nat \<Rightarrow> nat \<Rightarrow> nat \<times> nat" where
  "cell_of_index ncols k = ((k - 1) div ncols + 1, (k - 1) mod ncols + 1)"

text \<open>
  \<open>ax = plt.subplot(2, max_cols, pos); plot_grid(ax, grid, title)\<close>, with the default
  \<open>max_size\<close> of 30: the axes at the cell is replaced by the drawn one.
\<close>

definition draw_grid :: "figure \<Rightarrow> nat \<Rightarrow> nat \<Rightarrow> grid \<Rightarrow> string \<Rightarrow> error + figure" where
  "draw_grid fig max_cols pos grid ttl =
     and_then (subplot fig 2 max_cols pos) (\<lambda>ax.
     and_then (plot_grid ax grid ttl 30) (\<lambda>ax'.
       Inr (fig\<lparr>panels := AList.update (2, max_cols, pos) ax' (panels fig)\<rparr>)))"

text \<open>Lines 153 to 162: the placeholder panel for a test example without a solution.\<close>

definition no_solution_text :: string where
  "no_solution_text = ''No Solution'' @ [CHR 0x0A] @ ''Available''"

definition draw_placeholder :: "figure \<Rightarrow> nat \<Rightarrow> nat \<Rightarrow> string \<Rightarrow> error + figure" where
  "draw_placeholder fig max_cols pos ttl =
     and_then (subplot fig 2 max_cols pos) (\<lambda>ax.
       Inr (fig\<lparr>panels := AList.update (2, max_cols, pos)
                   (ax\<lparr>texts := texts ax @ [no_solution_text], xlim := (0, 1), ylim := (0, 1),
                       title := ttl\<rparr>)
                   (panels fig)\<rparr>))"

text \<open>Lines 128 to 135, the body of the loop over the training examples.\<close>

definition train_step :: "nat \<Rightarrow> nat \<times> train_example \<Rightarrow> figure \<Rightarrow> error + figure" where
  "train_step max_cols = (\<lambda>(i, example) fig.
     and_then (draw_grid fig max_cols (i * 2 + 1) (ex_input example)
                 (''Train '' @ str_nat (i + 1) @ '' Input'')) (\<lambda>fig.
       draw_grid fig max_cols (i * 2 + 2) (ex_output example)
         (''Train '' @ str_nat (i + 1) @ '' Output'')))"

text \<open>
  Lines 138 to 162, the body of the loop over the test examples. \<open>solution_data\<close> is
  \<open>None\<close> or a list; the test \<open>solution_data and i < len(solution_data)\<close> fails for \<open>None\<close>,
  for the empty list and for an index past the end.
\<close>

definition test_step ::
  "nat \<Rightarrow> grid list option \<Rightarrow> nat \<times> test_example \<Rightarrow> figure \<Rightarrow> error + figure" where
  "test_step max_cols solution_data = (\<lambda>(i, example) fig.
     let input_pos = max_cols + (i * 2) + 1;
         solution_pos = max_cols + (i * 2) + 2
     in and_then (draw_grid fig max_cols input_pos (ex_input example)
                    (''Test '' @ str_nat (i + 1) @ '' Input'')) (\<lambda>fig.
          case solution_data of
            None \<Rightarrow> draw_placeholder fig max_cols solution_pos
                      (''Test '' @ str_nat (i + 1) @ '' Solution'')
          | Some solution_list \<Rightarrow>
              if solution_list \<noteq> [] \<and> i < length solution_list
              then draw_grid fig max_cols solution_pos (solution_list ! i)
                     (''Test '' @ str_nat (i + 1) @ '' Solution'')
              else draw_placeholder fig max_cols solution_pos
                     (''Test '' @ str_nat (i + 1) @ '' Solution'')))"

text \<open>
  Lines 110 to 164 of \<open>visualize_challenge\<close>: the figure that is composed. Creating the
  figure and \<open>tight_layout\<close> are taken to succeed.
\<close>

definition compose_figure :: "string \<Rightarrow> challenge \<Rightarrow> grid list option \<Rightarrow> error + figure" where
  "compose_figure challenge_id challenge_data solution_data =
     (let train_examples = train challenge_data;
          test_examples = test challenge_data;
          n_train = length train_examples;
          n_test = length test_examples;
          train_cols = n_train * 2;
          test_cols = n_test * 2;
          max_cols = max train_cols test_cols;
          fig = \<lparr>suptitle = ''ARC Challenge: '' @ challenge_id,
                 figsize = (of_nat max_cols * (5 / 2), 6), panels = []\<rparr>
      in and_then (foldM (train_step max_cols) (List.enumerate 0 train_examples) fig) (\<lambda>fig.
           foldM (test_step max_cols solution_data) (List.enumerate 0 test_examples) fig))"

text \<open>
  Lines 166 to 171: the figure is written to \<open>save_path\<close> and closed, or shown when there
  is no path.
\<close>

datatype effect = Saved string figure | Shown figure

definition visualize_challenge ::
  "string \<Rightarrow> challenge \<Rightarrow> grid list option \<Rightarrow> string option \<Rightarrow> error + effect" where
  "visualize_challenge challenge_id challenge_data solution_data save_path =
     and_then (compose_figure challenge_id challenge_data solution_data) (\<lambda>fig.
       case save_path of
         Some path \<Rightarrow> Inr (Saved path fig)
       | None \<Rightarrow> Inr (Shown fig))"

text \<open>
  \<open>random.sample(population, k)\<close> raises \<open>ValueError\<close> when \<open>k\<close> is negative or larger than
  the population; otherwise it returns the elements at \<open>k\<close> pairwise distinct positions.
  The positions drawn are the parameter \<open>picks\<close>; \<open>sample_positions\<close> says that they are
  as the library promises.
\<close>

definition random_sample :: "nat list \<Rightarrow> 'a list \<Rightarrow> int \<Rightarrow> error + 'a list" where
  "random_sample picks population k =
     (if k < 0 \<or> int (length population) < k then Inl ValueError
      else Inr (map (\<lambda>j. population ! j) picks))"

definition sample_positions :: "nat list \<Rightarrow> nat \<Rightarrow> int \<Rightarrow> bool" where
  "sample_positions picks n k =
     (int (length picks) = k \<and> distinct picks \<and> list_all (\<lambda>j. j < n) picks)"

text \<open>
  Lines 173 to 178: the directory \<open>examples/<timestamp>\<close>, for the time \<open>now\<close> written as
  year, month, day, hour, minute and second.
\<close>

definition create_timestamped_directory :: "string \<Rightarrow> string" where
  "create_timestamped_directory now = ''examples/'' @ now"

text \<open>
  Lines 180 to 201. The result is the list of files written, in order, and the
  directory. A path is the directory, a slash and the file name.
\<close>

definition challenge_path :: "string \<Rightarrow> string \<Rightarrow> string" where
  "challenge_path save_dir challenge_id = save_dir @ ''/'' @ ''challenge_'' @ challenge_id @ ''.png''"

definition visualize_one ::
  "challenges \<Rightarrow> solutions \<Rightarrow> string \<Rightarrow> string \<Rightarrow> effect list \<Rightarrow> error + effect list" where
  "visualize_one challenges solutions save_dir challenge_id written =
     (case map_of challenges challenge_id of
        None \<Rightarrow> Inl KeyError
      | Some challenge_data \<Rightarrow>
          let solution_data = map_of solutions challenge_id;
              save_path = challenge_path save_dir challenge_id
          in and_then (visualize_challenge challenge_id challenge_data solution_data (Some save_path))
               (\<lambda>eff. Inr (written @ [eff])))"

definition visualize_random_challenges ::
  "nat list \<Rightarrow> string \<Rightarrow> challenges \<Rightarrow> solutions \<Rightarrow> int \<Rightarrow> string option
     \<Rightarrow> error + (effect list \<times> string)" where
  "visualize_random_challenges picks now challenges solutions n_samples save_dir =
     (let save_dir = (case save_dir of None \<Rightarrow> create_timestamped_directory now | Some d \<Rightarrow> d)
      in and_then (random_sample picks (map fst challenges)
                     (min n_samples (int (length challenges)))) (\<lambda>challenge_ids.
         and_then (foldM (visualize_one challenges solutions save_dir) challenge_ids [])
           (\<lambda>written. Inr (written, save_dir))))"

text \<open>
  What the composer is expected to put on the figure. \<open>renders\<close> says that \<open>plot_grid\<close>
  draws the grid (with the default cap of 30) without raising, \<open>drawn\<close> is the axes it
  returns, \<open>placeholder_axes\<close> is a new axes with the placeholder text, and
  \<open>solution_panel\<close> is the panel of test example \<open>i\<close> in the solution column.
\<close>

definition renders :: "grid \<Rightarrow> bool" where
  "renders g = (case plot_grid empty_axes g [] 30 of Inr ax \<Rightarrow> True | Inl e \<Rightarrow> False)"

definition drawn :: "grid \<Rightarrow> string \<Rightarrow> axes" where
  "drawn g ttl = (case plot_grid empty_axes g ttl 30 of Inr ax \<Rightarrow> ax | Inl e \<Rightarrow> empty_axes)"

definition placeholder_axes :: "string \<Rightarrow> axes" where
  "placeholder_axes ttl =
     empty_axes\<lparr>texts := [no_solution_text], xlim := (0, 1), ylim := (0, 1), title := ttl\<rparr>"

definition solution_panel :: "grid list option \<Rightarrow> nat \<Rightarrow> axes" where
  "solution_panel solution_data i =
     (case solution_data of
        None \<Rightarrow> placeholder_axes (''Test '' @ str_nat (i + 1) @ '' Solution'')
      | Some solution_list \<Rightarrow>
          if i < length solution_list
          then drawn (solution_list ! i) (''Test '' @ str_nat (i + 1) @ '' Solution'')
          else placeholder_axes (''Test '' @ str_nat (i + 1) @ '' Solution''))"

definition train_panels :: "nat \<Rightarrow> nat \<Rightarrow> train_example list \<Rightarrow> ((nat \<times> nat \<times> nat) \<times> axes) list" where
  "train_panels max_cols i0 exs =
     concat (map (\<lambda>(i, ex).
        [((2, max_cols, i * 2 + 1), drawn (ex_input ex) (''Train '' @ str_nat (i + 1) @ '' Input'')),
         ((2, max_cols, i * 2 + 2), drawn (ex_output ex) (''Train '' @ str_nat (i + 1) @ '' Output''))])
       (List.enumerate i0 exs))"

definition test_panels ::
  "nat \<Rightarrow> grid list option \<Rightarrow> nat \<Rightarrow> test_example list \<Rightarrow> ((nat \<times> nat \<times> nat) \<times> axes) list" where
  "test_panels max_cols solution_data i0 exs =
     concat (map (\<lambda>(i, ex).
        [((2, max_cols, max_cols + i * 2 + 1),
          drawn (ex_input ex) (''Test '' @ str_nat (i + 1) @ '' Input'')),
         ((2, max_cols, max_cols + i * 2 + 2), solution_panel solution_data i)])
       (List.enumerate i0 exs))"

section \<open>Basic facts\<close>

lemma and_then_Inl [simp]: "and_then (Inl e) f = Inl e"
  by (simp add: and_then_def)

lemma and_then_Inr [simp]: "and_then (Inr x) f = f x"
  by (simp add: and_then_def)

lemma np_shape_2D:
  assumes "np_shape g = Inr [h, w]"
  shows "g \<noteq> []" and "length g = h" and "\<forall>row\<in>set g. length row = w"
proof -
  show ne: "g \<noteq> []"
    using assms by (cases "g = []") (simp_all add: np_shape_def)
  have all: "list_all (\<lambda>row. length row = length (hd g)) g"
    using assms ne by (cases "list_all (\<lambda>row. length row = length (hd g)) g") (simp_all add: np_shape_def)
  have eq: "length g = h \<and> length (hd g) = w"
    using assms ne all by (simp add: np_shape_def)
  then show "length g = h" by simp
  show "\<forall>row\<in>set g. length row = w"
    using all eq by (simp add: list_all_iff)
qed

lemma unpack2_pair [simp]: "unpack2 [h, w] = Inr (h, w)"
  by (simp add: unpack2_def)

lemma slice_index_inside: "0 \<le> k \<Longrightarrow> k \<le> int n \<Longrightarrow> slice_index k n = nat k"
  by (simp add: slice_index_def)

lemma set_slice_centre:
  assumes "sh + h \<le> n" "sw + w \<le> n"
  shows "set_slice n n (replicate n (replicate n (- 1)))
           (int sh, int sh + int h) (int sw, int sw + int w) h w g =
         Inr (map (\<lambda>i. map (\<lambda>j. centred g h w sh sw i j) [0..<n]) [0..<n])"
proof -
  have r0: "slice_index (int sh) n = sh" and r1: "slice_index (int sh + int h) n = sh + h"
    and c0: "slice_index (int sw) n = sw" and c1: "slice_index (int sw + int w) n = sw + w"
    using assms by (simp_all add: slice_index_inside nat_add_distrib)
  have cell: "(if sh \<le> i \<and> i < sh + h \<and> sw \<le> j \<and> j < sw + w
         then g ! (if h = 1 then 0 else i - sh) ! (if w = 1 then 0 else j - sw)
         else replicate n (replicate n (- 1)) ! i ! j) = centred g h w sh sw i j"
    if "i < n" "j < n" for i j
    using that by (auto simp: centred_def)
  have "map (\<lambda>i. map (\<lambda>j.
          if sh \<le> i \<and> i < sh + h \<and> sw \<le> j \<and> j < sw + w
          then g ! (if h = 1 then 0 else i - sh) ! (if w = 1 then 0 else j - sw)
          else replicate n (replicate n (- 1)) ! i ! j) [0..<n]) [0..<n]
        = map (\<lambda>i. map (\<lambda>j. centred g h w sh sw i j) [0..<n]) [0..<n]"
    by (intro map_cong refl) (simp add: cell)
  then show ?thesis
    by (simp add: set_slice_def r0 r1 c0 c1)
qed

lemma display_grid_padded:
  assumes shape: "np_shape g = Inr [h, w]"
    and fits: "int h \<le> max_size" "int w \<le> max_size"
    and below: "int h < max_size \<or> int w < max_size"
  shows "display_grid g max_size =
           Inr (map (\<lambda>i. map (\<lambda>j. centred g h w
                  (nat ((max_size - int h) div 2)) (nat ((max_size - int w) div 2)) i j)
                  [0..<nat max_size]) [0..<nat max_size], nat max_size, nat max_size)"
proof -
  define n where "n = nat max_size"
  define sh where "sh = nat ((max_size - int h) div 2)"
  define sw where "sw = nat ((max_size - int w) div 2)"
  have m: "max_size = int n" "\<not> max_size < 0"
    using fits by (simp_all add: n_def)
  have sh: "(max_size - int h) div 2 = int sh" and sw: "(max_size - int w) div 2 = int sw"
    using fits by (simp_all add: sh_def sw_def)
  have le: "sh + h \<le> n" "sw + w \<le> n"
    using fits by (simp_all add: sh_def sw_def n_def)
  show ?thesis
    using below
    unfolding display_grid_def shape sh_def[symmetric] sw_def[symmetric] n_def[symmetric]
    by (simp add: Let_def m(2) sh sw set_slice_centre[OF le] flip: m(1))
qed

lemma display_grid_native:
  assumes "np_shape g = Inr [h, w]" "max_size \<le> int h" "max_size \<le> int w"
  shows "display_grid g max_size = Inr (g, h, w)"
  using assms by (simp add: display_grid_def Let_def)

lemma collect_all_Inr:
  "(\<And>r. r \<in> set rs \<Longrightarrow> \<exists>x. r = Inr x) \<Longrightarrow> collect rs = Inr (map projr rs)"
proof (induction rs)
  case Nil
  then show ?case by simp
next
  case (Cons r rs)
  from Cons.prems obtain x where "r = Inr x" by auto
  moreover have "collect rs = Inr (map projr rs)"
    using Cons by simp
  ultimately show ?case by simp
qed

lemma length_concat_rows:
  "length (concat (map (\<lambda>i. map (f i) [0..<n]) [0..<m])) = m * n"
  by (induction m) simp_all

lemma nth_concat_rows:
  "i < m \<Longrightarrow> j < n \<Longrightarrow> concat (map (\<lambda>i. map (f i) [0..<n]) [0..<m]) ! (i * n + j) = f i j"
proof (induction m)
  case 0
  then show ?case by simp
next
  case (Suc m)
  show ?case
  proof (cases "i < m")
    case True
    have "i * n + j < i * n + n" using Suc.prems(2) by simp
    also have "\<dots> = Suc i * n" by simp
    also have "\<dots> \<le> m * n" using True by (intro mult_le_mono1) simp
    finally have "i * n + j < m * n" .
    then show ?thesis using Suc True
      by (simp add: nth_append length_concat_rows)
  next
    case False
    then have "i = m" using Suc.prems(1) by simp
    then show ?thesis using Suc.prems(2)
      by (simp add: nth_append length_concat_rows)
  qed
qed

lemma cell_patch_palette:
  assumes "- 1 \<le> v" "v \<le> 9"
  shows "\<exists>p. cell_patch i j v = Inr p"
proof -
  have "v = -1 \<or> v = 0 \<or> v = 1 \<or> v = 2 \<or> v = 3 \<or> v = 4 \<or> v = 5 \<or> v = 6 \<or> v = 7 \<or> v = 8 \<or> v = 9"
    using assms by arith
  then show ?thesis
    by (elim disjE) (simp_all add: cell_patch_def COLOR_MAP_def)
qed

lemma plot_grid_draws:
  assumes shown: "display_grid g max_size = Inr (shown, dh, dw)"
    and palette: "\<And>i j. i < dh \<Longrightarrow> j < dw \<Longrightarrow> - 1 \<le> shown ! i ! j \<and> shown ! i ! j \<le> 9"
  shows "\<exists>ps. plot_grid ax g ttl max_size =
              Inr (empty_axes\<lparr>xlim := (0, int dw), ylim := (0, int dh), y_inverted := True,
                     patches := ps, title := ttl\<rparr>)
            \<and> length ps = dh * dw
            \<and> (\<forall>i<dh. \<forall>j<dw. cell_patch i j (shown ! i ! j) = Inr (ps ! (i * dw + j)))"
proof -
  define f where "f = (\<lambda>i j. cell_patch i j (shown ! i ! j))"
  define rs where "rs = concat (map (\<lambda>i. map (f i) [0..<dw]) [0..<dh])"
  define ps where "ps = concat (map (\<lambda>i. map (\<lambda>j. projr (f i j)) [0..<dw]) [0..<dh])"
  have ok: "\<exists>p. f i j = Inr p" if "i < dh" "j < dw" for i j
    using palette[OF that] by (simp add: f_def cell_patch_palette)
  have "\<exists>x. r = Inr x" if "r \<in> set rs" for r
    using that ok by (auto simp: rs_def)
  then have "collect rs = Inr (map projr rs)"
    by (rule collect_all_Inr)
  also have "map projr rs = ps"
    by (simp add: rs_def ps_def map_concat comp_def)
  finally have run: "collect rs = Inr ps" .
  have "plot_grid ax g ttl max_size =
          Inr (empty_axes\<lparr>xlim := (0, int dw), ylim := (0, int dh), y_inverted := True,
                 patches := ps, title := ttl\<rparr>)"
    using run by (simp add: plot_grid_def shown rs_def f_def)
  moreover have "length ps = dh * dw"
    by (simp add: ps_def length_concat_rows)
  moreover have "cell_patch i j (shown ! i ! j) = Inr (ps ! (i * dw + j))" if "i < dh" "j < dw" for i j
  proof -
    have "ps ! (i * dw + j) = projr (f i j)"
      unfolding ps_def using that by (rule nth_concat_rows)
    with ok[OF that] show ?thesis by (auto simp: f_def)
  qed
  ultimately show ?thesis by blast
qed

lemma grid_cell_mem:
  assumes "np_shape g = Inr [h, w]" "i < h" "j < w"
  shows "g ! i \<in> set g" and "g ! i ! j \<in> set (g ! i)"
proof -
  show row: "g ! i \<in> set g"
    using assms np_shape_2D(2)[OF assms(1)] by simp
  have "length (g ! i) = w"
    using np_shape_2D(3)[OF assms(1)] row by blast
  then show "g ! i ! j \<in> set (g ! i)"
    using assms(3) by simp
qed

section \<open>The grid renderer: canvas size and content\<close>

text \<open>
  Claim C5. A rectangular matrix whose height and width are both at least the display
  cap is displayed at its own size: the displayed grid is the matrix itself, with its own
  height and width (nothing added, nothing dropped). When in addition every cell is a
  palette value or \<open>-1\<close>, \<open>plot_grid\<close> returns an axes with limits \<open>(0, w)\<close> and \<open>(0, h)\<close> and
  one unit square per cell, in row-major order, drawn for that cell's value.
\<close>

theorem plot_grid_native_size:
  assumes "np_shape g = Inr [h, w]" "max_size \<le> int h" "max_size \<le> int w"
  shows "display_grid g max_size = Inr (g, h, w) \<and>
    ((\<forall>row\<in>set g. \<forall>v\<in>set row. - 1 \<le> v \<and> v \<le> 9) \<longrightarrow>
     (\<exists>ps. plot_grid ax g ttl max_size =
             Inr (empty_axes\<lparr>xlim := (0, int w), ylim := (0, int h), y_inverted := True,
                    patches := ps, title := ttl\<rparr>)
           \<and> length ps = h * w
           \<and> (\<forall>i<h. \<forall>j<w. cell_patch i j (g ! i ! j) = Inr (ps ! (i * w + j)))))"
proof (intro conjI impI)
  show shown: "display_grid g max_size = Inr (g, h, w)"
    using assms by (rule display_grid_native)
  assume palette: "\<forall>row\<in>set g. \<forall>v\<in>set row. - 1 \<le> v \<and> v \<le> 9"
  have "- 1 \<le> g ! i ! j \<and> g ! i ! j \<le> 9" if "i < h" "j < w" for i j
    using palette grid_cell_mem[OF assms(1) that] by blast
  with shown show "\<exists>ps. plot_grid ax g ttl max_size =
             Inr (empty_axes\<lparr>xlim := (0, int w), ylim := (0, int h), y_inverted := True,
                    patches := ps, title := ttl\<rparr>)
           \<and> length ps = h * w
           \<and> (\<forall>i<h. \<forall>j<w. cell_patch i j (g ! i ! j) = Inr (ps ! (i * w + j)))"
    by (rule plot_grid_draws)
qed

theorem plot_grid_native_size_witness:
  "np_shape (replicate 30 (replicate 30 0)) = Inr [30, 30] \<and> (30::int) \<le> int 30 \<and>
   display_grid (replicate 30 (replicate 30 0)) 30 = Inr (replicate 30 (replicate 30 0), 30, 30) \<and>
   (\<exists>ps. plot_grid empty_axes (replicate 30 (replicate 30 0)) ''Train 1 Input'' 30 =
            Inr (empty_axes\<lparr>xlim := (0, 30), ylim := (0, 30), y_inverted := True,
                   patches := ps, title := ''Train 1 Input''\<rparr>)
          \<and> length ps = 900)"
proof -
  have shape: "np_shape (replicate 30 (replicate 30 0)) = Inr [30, 30]"
    by (simp add: np_shape_def list_all_iff)
  have palette: "\<forall>row\<in>set (replicate 30 (replicate 30 (0::int))). \<forall>v\<in>set row. - 1 \<le> v \<and> v \<le> 9"
    by simp
  show ?thesis
    using plot_grid_native_size[OF shape, of 30 empty_axes "''Train 1 Input''"] shape palette
    by auto
qed

text \<open>
  Claim C1, as amended. A rectangular matrix whose height and width are both at most the
  display cap, one of them strictly below it, is displayed on a canvas of cap by cap
  cells: the matrix stands unchanged in the block whose top left corner is at row
  \<open>(cap - height) div 2\<close> and column \<open>(cap - width) div 2\<close>, and every other cell is \<open>-1\<close>.
  When every cell of the matrix is a palette value or \<open>-1\<close>, \<open>plot_grid\<close> draws one unit
  square per canvas cell.
\<close>

theorem plot_grid_padded_canvas:
  assumes "np_shape g = Inr [h, w]" "int h \<le> max_size" "int w \<le> max_size"
    and "int h < max_size \<or> int w < max_size"
  shows "let n = nat max_size;
             start_h = nat ((max_size - int h) div 2);
             start_w = nat ((max_size - int w) div 2)
         in \<exists>canvas. display_grid g max_size = Inr (canvas, n, n)
              \<and> length canvas = n
              \<and> (\<forall>row\<in>set canvas. length row = n)
              \<and> (\<forall>i<n. \<forall>j<n. canvas ! i ! j =
                    (if start_h \<le> i \<and> i < start_h + h \<and> start_w \<le> j \<and> j < start_w + w
                     then g ! (i - start_h) ! (j - start_w) else - 1))
              \<and> ((\<forall>row\<in>set g. \<forall>v\<in>set row. - 1 \<le> v \<and> v \<le> 9) \<longrightarrow>
                   (\<exists>ps. plot_grid ax g ttl max_size =
                           Inr (empty_axes\<lparr>xlim := (0, int n), ylim := (0, int n),
                                  y_inverted := True, patches := ps, title := ttl\<rparr>)
                         \<and> length ps = n * n
                         \<and> (\<forall>i<n. \<forall>j<n. cell_patch i j (canvas ! i ! j) = Inr (ps ! (i * n + j)))))"
proof -
  define n where "n = nat max_size"
  define sh where "sh = nat ((max_size - int h) div 2)"
  define sw where "sw = nat ((max_size - int w) div 2)"
  define canvas where "canvas = map (\<lambda>i. map (\<lambda>j. centred g h w sh sw i j) [0..<n]) [0..<n]"
  have shown: "display_grid g max_size = Inr (canvas, n, n)"
    unfolding canvas_def n_def sh_def sw_def using assms by (rule display_grid_padded)
  have len: "length canvas = n"
    by (simp add: canvas_def)
  have rows: "\<forall>row\<in>set canvas. length row = n"
    by (auto simp: canvas_def)
  have cell: "canvas ! i ! j = centred g h w sh sw i j" if "i < n" "j < n" for i j
    using that by (simp add: canvas_def)
  have drawn: "\<exists>ps. plot_grid ax g ttl max_size =
                 Inr (empty_axes\<lparr>xlim := (0, int n), ylim := (0, int n),
                        y_inverted := True, patches := ps, title := ttl\<rparr>)
               \<and> length ps = n * n
               \<and> (\<forall>i<n. \<forall>j<n. cell_patch i j (canvas ! i ! j) = Inr (ps ! (i * n + j)))"
    if palette: "\<forall>row\<in>set g. \<forall>v\<in>set row. - 1 \<le> v \<and> v \<le> 9"
  proof -
    have "- 1 \<le> canvas ! i ! j \<and> canvas ! i ! j \<le> 9" if ij: "i < n" "j < n" for i j
    proof (cases "sh \<le> i \<and> i < sh + h \<and> sw \<le> j \<and> j < sw + w")
      case True
      then have "i - sh < h" "j - sw < w" by auto
      from grid_cell_mem[OF assms(1) this] palette
      have "- 1 \<le> g ! (i - sh) ! (j - sw) \<and> g ! (i - sh) ! (j - sw) \<le> 9" by blast
      then show ?thesis using True by (simp add: cell[OF ij] centred_def)
    next
      case False
      then show ?thesis unfolding cell[OF ij] centred_def by auto
    qed
    with shown show ?thesis by (rule plot_grid_draws)
  qed
  show ?thesis
    unfolding Let_def n_def[symmetric] sh_def[symmetric] sw_def[symmetric]
    using shown len rows cell drawn by (intro exI[of _ canvas]) (simp add: centred_def)
qed

theorem plot_grid_padded_canvas_witness:
  "np_shape [[1, 2], [3, 4]] = Inr [2, 2] \<and> int 2 \<le> 30 \<and> int 2 < 30 \<and>
   (\<exists>canvas. display_grid [[1, 2], [3, 4]] 30 = Inr (canvas, 30, 30) \<and> length canvas = 30 \<and>
      canvas ! 0 ! 0 = - 1 \<and> canvas ! 14 ! 14 = 1 \<and> canvas ! 14 ! 15 = 2 \<and>
      canvas ! 15 ! 14 = 3 \<and> canvas ! 15 ! 15 = 4 \<and> canvas ! 16 ! 16 = - 1)"
proof -
  have shape: "np_shape [[1, 2], [3, 4]] = Inr [2, 2]"
    by (simp add: np_shape_def)
  from plot_grid_padded_canvas[OF shape, of 30 empty_axes "''Test 1 Input''"]
  obtain canvas where shown: "display_grid [[1, 2], [3, 4]] 30 = Inr (canvas, 30, 30)"
    and len: "length canvas = 30"
    and cell: "\<And>i j. i < 30 \<Longrightarrow> j < 30 \<Longrightarrow> canvas ! i ! j =
                 (if 14 \<le> i \<and> i < 16 \<and> 14 \<le> j \<and> j < 16
                  then [[1, 2], [3, 4]] ! (i - 14) ! (j - 14) else - 1)"
    by (auto simp: Let_def)
  have "canvas ! 0 ! 0 = - 1" "canvas ! 14 ! 14 = 1" "canvas ! 14 ! 15 = 2"
    "canvas ! 15 ! 14 = 3" "canvas ! 15 ! 15 = 4" "canvas ! 16 ! 16 = - 1"
    by (simp_all add: cell)
  with shape shown len show ?thesis by auto
qed

text \<open>
  Claim C1 as stated fails when one dimension is below the cap and the other above it:
  for a grid of one row and 31 columns at the default cap of 30, the column slice
  \<open>-1:30\<close> selects a single column, the 31 columns cannot be broadcast into it, and
  \<open>plot_grid\<close> raises \<open>ValueError\<close> instead of rendering a canvas.
\<close>

theorem plot_grid_oversize_counterexample:
  "np_shape [replicate 31 0] = Inr [1, 31] \<and> int 1 < 30 \<and>
   plot_grid empty_axes [replicate 31 0] ''Train 1 Input'' 30 = Inl ValueError"
  by (simp add: np_shape_def plot_grid_def display_grid_def set_slice_def slice_index_def Let_def)

section \<open>The statistics aggregator\<close>

text \<open>
  Claim C8. On an empty challenge mapping the loop appends nothing, and \<open>min(train_counts)\<close>
  at line 46 raises \<open>ValueError\<close> (the argument of \<open>min\<close> is an empty sequence): the function
  returns no result.
\<close>

theorem analyze_data_statistics_empty:
  "analyze_data_statistics [] solutions = Inl ValueError"
  by (simp add: analyze_data_statistics_def)

lemma np_shape_two_dimensional:
  "two_dimensional g \<Longrightarrow> np_shape g = Inr [length g, length (hd g)]"
  by (simp add: two_dimensional_def np_shape_def)

lemma scan_examples_run:
  assumes "\<And>ex. ex \<in> set exs \<Longrightarrow> two_dimensional (ex_input ex) \<and> two_dimensional (ex_output ex)"
  shows "foldM scan_example exs (ins, outs, uv) =
           Inr (ins @ map (\<lambda>ex. [length (ex_input ex), length (hd (ex_input ex))]) exs,
                outs @ map (\<lambda>ex. [length (ex_output ex), length (hd (ex_output ex))]) exs,
                uv \<union> (\<Union>ex\<in>set exs. set (concat (ex_input ex)) \<union> set (concat (ex_output ex))))"
  using assms
proof (induction exs arbitrary: ins outs uv)
  case Nil
  then show ?case by simp
next
  case (Cons ex exs)
  have "two_dimensional (ex_input ex)" "two_dimensional (ex_output ex)"
    using Cons.prems by simp_all
  then have step: "scan_example ex (ins, outs, uv) =
      Inr (ins @ [[length (ex_input ex), length (hd (ex_input ex))]],
           outs @ [[length (ex_output ex), length (hd (ex_output ex))]],
           uv \<union> set (concat (ex_input ex)) \<union> set (concat (ex_output ex)))"
    by (simp add: scan_example_def np_shape_two_dimensional)
  have rest: "\<And>e. e \<in> set exs \<Longrightarrow> two_dimensional (ex_input e) \<and> two_dimensional (ex_output e)"
    using Cons.prems by simp
  show ?case
    by (simp add: step Cons.IH[OF rest] Un_assoc)
qed

lemma scan_challenges_run:
  assumes "\<And>item ex. item \<in> set cs \<Longrightarrow> ex \<in> set (train (snd item)) \<Longrightarrow>
             two_dimensional (ex_input ex) \<and> two_dimensional (ex_output ex)"
  shows "foldM scan_challenge cs (tc, sc, ins, outs, uv) =
           Inr (tc @ map (\<lambda>item. length (train (snd item))) cs,
                sc @ map (\<lambda>item. length (test (snd item))) cs,
                ins @ concat (map (\<lambda>item. map (\<lambda>ex. [length (ex_input ex), length (hd (ex_input ex))])
                                            (train (snd item))) cs),
                outs @ concat (map (\<lambda>item. map (\<lambda>ex. [length (ex_output ex), length (hd (ex_output ex))])
                                            (train (snd item))) cs),
                uv \<union> train_values cs)"
  using assms
proof (induction cs arbitrary: tc sc ins outs uv)
  case Nil
  then show ?case by (simp add: train_values_def)
next
  case (Cons item cs)
  have inner: "\<And>ex. ex \<in> set (train (snd item)) \<Longrightarrow>
                 two_dimensional (ex_input ex) \<and> two_dimensional (ex_output ex)"
    by (rule Cons.prems[of item]) simp_all
  have rest: "two_dimensional (ex_input ex) \<and> two_dimensional (ex_output ex)"
    if "it \<in> set cs" "ex \<in> set (train (snd it))" for it ex
    using that by (intro Cons.prems[of it]) simp_all
  have tv: "train_values (item # cs) =
              (\<Union>ex\<in>set (train (snd item)). set (concat (ex_input ex)) \<union> set (concat (ex_output ex)))
              \<union> train_values cs"
    by (simp add: train_values_def)
  have step: "scan_challenge item (tc, sc, ins, outs, uv) =
      Inr (tc @ [length (train (snd item))], sc @ [length (test (snd item))],
           ins @ map (\<lambda>ex. [length (ex_input ex), length (hd (ex_input ex))]) (train (snd item)),
           outs @ map (\<lambda>ex. [length (ex_output ex), length (hd (ex_output ex))]) (train (snd item)),
           uv \<union> (\<Union>ex\<in>set (train (snd item)).
                  set (concat (ex_input ex)) \<union> set (concat (ex_output ex))))"
    by (simp add: scan_challenge_def scan_examples_run[OF inner])
  show ?case
    by (simp add: step Cons.IH[OF rest] tv Un_assoc)
qed

lemma areas_pairs:
  assumes "\<And>s. s \<in> set sizes \<Longrightarrow> \<exists>h w. s = [h, w]"
  shows "\<exists>as. areas sizes = Inr as \<and> length as = length sizes"
proof -
  have "\<exists>x. r = Inr x"
    if "r \<in> set (map (\<lambda>s. and_then (unpack2 s) (\<lambda>(h, w). Inr (h * w))) sizes)" for r
  proof -
    from that obtain s where s: "s \<in> set sizes"
      and r: "r = and_then (unpack2 s) (\<lambda>(h, w). Inr (h * w))" by auto
    from assms[OF s] obtain h w where "s = [h, w]" by blast
    then show ?thesis by (simp add: r unpack2_def)
  qed
  then have "areas sizes = Inr (map projr (map (\<lambda>s. and_then (unpack2 s) (\<lambda>(h, w). Inr (h * w))) sizes))"
    unfolding areas_def by (rule collect_all_Inr)
  then show ?thesis by simp
qed

lemma finite_train_values: "finite (train_values cs)"
  by (simp add: train_values_def)

text \<open>
  Claim C2, as amended. The aggregator returns whenever the challenge mapping is not empty,
  has a training example and all grids of its training examples are two-dimensional. The
  list of values it reports holds exactly the cells of the input and output grids of the
  training examples, sorted in ascending order without repetition; it lies in \<open>0..9\<close> when
  those cells do.
\<close>

theorem unique_values_of_training_examples:
  assumes nonempty: "challenges \<noteq> []"
    and some_example: "list_ex (\<lambda>item. train (snd item) \<noteq> []) challenges"
    and grids: "\<forall>item\<in>set challenges. \<forall>ex\<in>set (train (snd item)).
                  two_dimensional (ex_input ex) \<and> two_dimensional (ex_output ex)"
  shows "\<exists>st. analyze_data_statistics challenges solutions = Inr st
           \<and> set (unique_values st) = train_values challenges
           \<and> sorted (unique_values st) \<and> distinct (unique_values st)
           \<and> ((\<forall>v\<in>train_values challenges. 0 \<le> v \<and> v \<le> 9) \<longrightarrow> set (unique_values st) \<subseteq> {0..9})"
proof -
  define ins where "ins = concat (map (\<lambda>item. map (\<lambda>ex. [length (ex_input ex), length (hd (ex_input ex))])
                                            (train (snd item))) challenges)"
  define outs where "outs = concat (map (\<lambda>item. map (\<lambda>ex. [length (ex_output ex), length (hd (ex_output ex))])
                                            (train (snd item))) challenges)"
  have run: "foldM scan_challenge challenges ([], [], [], [], {}) =
               Inr (map (\<lambda>item. length (train (snd item))) challenges,
                    map (\<lambda>item. length (test (snd item))) challenges,
                    ins, outs, train_values challenges)"
    using grids by (simp add: scan_challenges_run ins_def outs_def)
  obtain item where item: "item \<in> set challenges" "train (snd item) \<noteq> []"
    using some_example by (auto simp: list_ex_iff)
  have is_ne: "ins \<noteq> []" and os_ne: "outs \<noteq> []"
    using item by (auto simp: ins_def outs_def)
  obtain ia where ia: "areas ins = Inr ia" "length ia = length ins"
    using areas_pairs[of ins] by (auto simp: ins_def)
  obtain oa where oa: "areas outs = Inr oa" "length oa = length outs"
    using areas_pairs[of outs] by (auto simp: outs_def)
  have ia_ne: "ia \<noteq> []" and oa_ne: "oa \<noteq> []"
    using ia oa is_ne os_ne by auto
  have "analyze_data_statistics challenges solutions =
          Inr \<lparr>train_counts = map (\<lambda>item. length (train (snd item))) challenges,
               test_counts = map (\<lambda>item. length (test (snd item))) challenges,
               input_sizes = ins, output_sizes = outs,
               unique_values = sorted_list_of_set (train_values challenges)\<rparr>"
    using nonempty is_ne os_ne ia_ne oa_ne
    by (simp add: analyze_data_statistics_def run ia oa)
  then show ?thesis
    using finite_train_values[of challenges] by auto
qed

theorem unique_values_of_training_examples_witness:
  "[(''007bbfb7'', \<lparr>train = [\<lparr>ex_input = [[0, 1], [1, 0]], ex_output = [[1, 0], [0, 3]]\<rparr>],
                     test = [\<lparr>ex_input = [[7, 7]]\<rparr>]\<rparr>)] \<noteq> [] \<and>
   (\<exists>st. analyze_data_statistics
           [(''007bbfb7'', \<lparr>train = [\<lparr>ex_input = [[0, 1], [1, 0]], ex_output = [[1, 0], [0, 3]]\<rparr>],
                             test = [\<lparr>ex_input = [[7, 7]]\<rparr>]\<rparr>)] [] = Inr st
      \<and> set (unique_values st) = {0, 1, 3} \<and> sorted (unique_values st)
      \<and> set (unique_values st) \<subseteq> {0..9})"
  using unique_values_of_training_examples
          [of "[(''007bbfb7'', \<lparr>train = [\<lparr>ex_input = [[0, 1], [1, 0]], ex_output = [[1, 0], [0, 3]]\<rparr>],
                                 test = [\<lparr>ex_input = [[7, 7]]\<rparr>]\<rparr>)]" "[]"]
  by (auto simp: train_values_def two_dimensional_def)

text \<open>
  Claim C2 as stated fails: the loop at lines 34 to 43 visits \<open>challenge['train']\<close> only.
  A value that occurs in a test input alone is a value of the data set and is not reported.
\<close>

theorem unique_values_miss_test_inputs_counterexample:
  "map_sum id unique_values
     (analyze_data_statistics
        [(''c'', \<lparr>train = [\<lparr>ex_input = [[0]], ex_output = [[0]]\<rparr>],
                  test = [\<lparr>ex_input = [[5]]\<rparr>]\<rparr>)] []) = Inr [0]
   \<and> 5 \<in> dataset_values
        [(''c'', \<lparr>train = [\<lparr>ex_input = [[0]], ex_output = [[0]]\<rparr>],
                  test = [\<lparr>ex_input = [[5]]\<rparr>]\<rparr>)]"
  by (simp add: analyze_data_statistics_def scan_challenge_def scan_example_def np_shape_def
        areas_def unpack2_def dataset_values_def train_values_def)

section \<open>The interest classifier\<close>

lemma length_concat_rectangular:
  "(\<And>row. row \<in> set g \<Longrightarrow> length row = w) \<Longrightarrow> length (concat g) = length g * w"
  by (induction g) simp_all

lemma np_shape_rectangular:
  assumes "rectangular g"
  shows "\<exists>s. np_shape g = Inr s \<and> prod_list s = length (concat g)"
proof (cases "g = []")
  case True
  then show ?thesis by (simp add: np_shape_def)
next
  case False
  have "length (concat g) = length g * length (hd g)"
    using assms by (intro length_concat_rectangular) (simp add: rectangular_def list_all_iff)
  then show ?thesis
    using assms False by (simp add: np_shape_def rectangular_def)
qed

lemma classify_example_run:
  assumes "rectangular (ex_input ex)" "rectangular (ex_output ex)"
  shows "classify_example cid ex (l, s, m, p, c) =
           Inr (l @ hits has_large cid [ex], s @ hits has_small cid [ex],
                m @ hits has_many_colors cid [ex], p @ hits is_simple cid [ex],
                c @ hits changes_size cid [ex])"
proof -
  obtain si where si: "np_shape (ex_input ex) = Inr si" "prod_list si = length (concat (ex_input ex))"
    using np_shape_rectangular[OF assms(1)] by blast
  obtain so where so: "np_shape (ex_output ex) = Inr so" "prod_list so = length (concat (ex_output ex))"
    using np_shape_rectangular[OF assms(2)] by blast
  show ?thesis
    by (simp add: classify_example_def si so Let_def hits_def has_large_def has_small_def
          has_many_colors_def is_simple_def changes_size_def)
qed

lemma hits_Cons: "hits P cid (ex # exs) = hits P cid [ex] @ hits P cid exs"
  by (simp add: hits_def)

lemma classify_examples_run:
  assumes "\<And>ex. ex \<in> set exs \<Longrightarrow> rectangular (ex_input ex) \<and> rectangular (ex_output ex)"
  shows "foldM (classify_example cid) exs (l, s, m, p, c) =
           Inr (l @ hits has_large cid exs, s @ hits has_small cid exs,
                m @ hits has_many_colors cid exs, p @ hits is_simple cid exs,
                c @ hits changes_size cid exs)"
  using assms
proof (induction exs arbitrary: l s m p c)
  case Nil
  then show ?case by (simp add: hits_def)
next
  case (Cons ex exs)
  have step: "classify_example cid ex (l, s, m, p, c) =
           Inr (l @ hits has_large cid [ex], s @ hits has_small cid [ex],
                m @ hits has_many_colors cid [ex], p @ hits is_simple cid [ex],
                c @ hits changes_size cid [ex])"
    using Cons.prems[of ex] by (intro classify_example_run) simp_all
  have rest: "rectangular (ex_input e) \<and> rectangular (ex_output e)" if "e \<in> set exs" for e
    using that by (intro Cons.prems) simp
  show ?case
    by (simp add: step Cons.IH[OF rest] hits_Cons[of _ cid ex exs])
qed

lemma classify_challenges_run:
  assumes "\<And>item ex. item \<in> set cs \<Longrightarrow> ex \<in> set (train (snd item)) \<Longrightarrow>
             rectangular (ex_input ex) \<and> rectangular (ex_output ex)"
  shows "foldM (\<lambda>item. foldM (classify_example (fst item)) (train (snd item))) cs (l, s, m, p, c) =
           Inr (l @ concat (map (\<lambda>item. hits has_large (fst item) (train (snd item))) cs),
                s @ concat (map (\<lambda>item. hits has_small (fst item) (train (snd item))) cs),
                m @ concat (map (\<lambda>item. hits has_many_colors (fst item) (train (snd item))) cs),
                p @ concat (map (\<lambda>item. hits is_simple (fst item) (train (snd item))) cs),
                c @ concat (map (\<lambda>item. hits changes_size (fst item) (train (snd item))) cs))"
  using assms
proof (induction cs arbitrary: l s m p c)
  case Nil
  then show ?case by simp
next
  case (Cons item cs)
  have inner: "rectangular (ex_input ex) \<and> rectangular (ex_output ex)"
    if "ex \<in> set (train (snd item))" for ex
    using that by (intro Cons.prems[of item]) simp_all
  have rest: "rectangular (ex_input ex) \<and> rectangular (ex_output ex)"
    if "it \<in> set cs" "ex \<in> set (train (snd it))" for it ex
    using that by (intro Cons.prems[of it]) simp_all
  show ?case
    by (simp add: classify_examples_run[OF inner] Cons.IH[OF rest])
qed

lemma set_hits: "set (hits P cid exs) = (if list_ex P exs then {cid} else {})"
  by (auto simp: hits_def list_ex_iff)

lemma mem_hits:
  "cid \<in> set (concat (map (\<lambda>item. hits P (fst item) (train (snd item))) cs)) \<longleftrightarrow>
     (\<exists>item\<in>set cs. fst item = cid \<and> list_ex P (train (snd item)))"
  by (induction cs) (simp_all add: set_hits, blast)

lemma key_unique:
  assumes "distinct (map fst cs)" "(cid, ch) \<in> set cs" "(cid, ch') \<in> set cs"
  shows "ch' = ch"
proof -
  have "map_of cs cid = Some ch"
    using assms(1,2) by (rule map_of_is_SomeI)
  moreover have "map_of cs cid = Some ch'"
    using assms(1,3) by (rule map_of_is_SomeI)
  ultimately show ?thesis by simp
qed

lemma mem_hits_key:
  assumes "distinct (map fst cs)" "(cid, ch) \<in> set cs"
  shows "cid \<in> set (concat (map (\<lambda>item. hits P (fst item) (train (snd item))) cs)) \<longleftrightarrow>
           list_ex P (train ch)"
proof -
  have "(\<exists>item\<in>set cs. fst item = cid \<and> list_ex P (train (snd item))) \<longleftrightarrow> list_ex P (train ch)"
  proof
    assume "\<exists>item\<in>set cs. fst item = cid \<and> list_ex P (train (snd item))"
    then obtain ch' where in': "(cid, ch') \<in> set cs" and P: "list_ex P (train ch')"
      by (metis prod.collapse)
    from key_unique[OF assms in'] P show "list_ex P (train ch)" by simp
  next
    assume "list_ex P (train ch)"
    then show "\<exists>item\<in>set cs. fst item = cid \<and> list_ex P (train (snd item))"
      using assms(2) by (intro bexI[of _ "(cid, ch)"]) simp_all
  qed
  then show ?thesis by (simp only: mem_hits)
qed

text \<open>
  Claim C6, as amended. The classifier returns whenever the grids of all training examples
  are rectangular. A challenge with the training example \<open>[[1,1],[1,1]]\<close> to
  \<open>[[2,2],[2,2]]\<close> is then listed as small and as simple; it is listed under many colors
  or under size changes only if another of its training examples has more than five
  distinct values in a grid, or grids of different shapes; and it is listed as large if
  and only if one of its training examples has an input or output of more than 200 cells.
\<close>

theorem interest_of_constant_two_by_two:
  assumes keys: "distinct (map fst challenges)"
    and grids: "\<forall>item\<in>set challenges. \<forall>ex\<in>set (train (snd item)).
                  rectangular (ex_input ex) \<and> rectangular (ex_output ex)"
    and member: "(cid, ch) \<in> set challenges" "ex0 \<in> set (train ch)"
    and ex0: "ex_input ex0 = [[1, 1], [1, 1]]" "ex_output ex0 = [[2, 2], [2, 2]]"
  shows "\<exists>r. find_interesting_challenges challenges solutions = Inr r
           \<and> cid \<in> small_grids r \<and> cid \<in> simple_patterns r
           \<and> (cid \<in> many_colors r \<longrightarrow>
                (\<exists>ex\<in>set (train ch). ex \<noteq> ex0 \<and>
                   (5 < card (set (concat (ex_input ex))) \<or> 5 < card (set (concat (ex_output ex))))))
           \<and> (cid \<in> size_changes r \<longrightarrow>
                (\<exists>ex\<in>set (train ch). ex \<noteq> ex0 \<and> np_shape (ex_input ex) \<noteq> np_shape (ex_output ex)))
           \<and> (cid \<in> large_grids r \<longleftrightarrow>
                (\<exists>ex\<in>set (train ch).
                   200 < length (concat (ex_input ex)) \<or> 200 < length (concat (ex_output ex))))"
proof -
  define found where "found P = set (concat (map (\<lambda>item. hits P (fst item) (train (snd item))) challenges))"
    for P
  define r where "r = \<lparr>large_grids = found has_large, small_grids = found has_small,
    many_colors = found has_many_colors, simple_patterns = found is_simple,
    size_changes = found changes_size\<rparr>"
  have run: "find_interesting_challenges challenges solutions = Inr r"
    using grids by (simp add: find_interesting_challenges_def classify_challenges_run r_def found_def)
  have mem: "cid \<in> found P \<longleftrightarrow> list_ex P (train ch)" for P
    unfolding found_def using keys member(1) by (rule mem_hits_key)
  have small0: "has_small ex0" and simple0: "is_simple ex0"
    and many0: "\<not> has_many_colors ex0" and change0: "\<not> changes_size ex0"
    by (simp_all add: has_small_def is_simple_def has_many_colors_def changes_size_def ex0 np_shape_def)
  have "cid \<in> small_grids r" "cid \<in> simple_patterns r"
    using small0 simple0 member(2) by (auto simp: r_def mem list_ex_iff)
  moreover have "\<exists>ex\<in>set (train ch). ex \<noteq> ex0 \<and>
      (5 < card (set (concat (ex_input ex))) \<or> 5 < card (set (concat (ex_output ex))))"
    if "cid \<in> many_colors r"
  proof -
    from that obtain ex where "ex \<in> set (train ch)" "has_many_colors ex"
      by (auto simp: r_def mem list_ex_iff)
    with many0 show ?thesis by (auto simp: has_many_colors_def)
  qed
  moreover have "\<exists>ex\<in>set (train ch). ex \<noteq> ex0 \<and> np_shape (ex_input ex) \<noteq> np_shape (ex_output ex)"
    if "cid \<in> size_changes r"
  proof -
    from that obtain ex where "ex \<in> set (train ch)" "changes_size ex"
      by (auto simp: r_def mem list_ex_iff)
    with change0 show ?thesis by (auto simp: changes_size_def)
  qed
  moreover have "cid \<in> large_grids r \<longleftrightarrow>
      (\<exists>ex\<in>set (train ch). 200 < length (concat (ex_input ex)) \<or> 200 < length (concat (ex_output ex)))"
    by (simp add: r_def mem list_ex_iff has_large_def)
  ultimately show ?thesis using run by blast
qed

theorem interest_of_constant_two_by_two_witness:
  "distinct (map fst
     [(''007bbfb7'', \<lparr>train = [\<lparr>ex_input = [[1, 1], [1, 1]], ex_output = [[2, 2], [2, 2]]\<rparr>],
                       test = [\<lparr>ex_input = [[3]]\<rparr>]\<rparr>)]) \<and>
   (\<exists>r. find_interesting_challenges
           [(''007bbfb7'', \<lparr>train = [\<lparr>ex_input = [[1, 1], [1, 1]], ex_output = [[2, 2], [2, 2]]\<rparr>],
                             test = [\<lparr>ex_input = [[3]]\<rparr>]\<rparr>)] [] = Inr r
      \<and> ''007bbfb7'' \<in> small_grids r \<and> ''007bbfb7'' \<in> simple_patterns r
      \<and> ''007bbfb7'' \<notin> many_colors r \<and> ''007bbfb7'' \<notin> size_changes r
      \<and> ''007bbfb7'' \<notin> large_grids r)"
  using interest_of_constant_two_by_two
          [of "[(''007bbfb7'', \<lparr>train = [\<lparr>ex_input = [[1, 1], [1, 1]], ex_output = [[2, 2], [2, 2]]\<rparr>],
                                 test = [\<lparr>ex_input = [[3]]\<rparr>]\<rparr>)]"
              "''007bbfb7''"
              "\<lparr>train = [\<lparr>ex_input = [[1, 1], [1, 1]], ex_output = [[2, 2], [2, 2]]\<rparr>],
                test = [\<lparr>ex_input = [[3]]\<rparr>]\<rparr>"
              "\<lparr>ex_input = [[1, 1], [1, 1]], ex_output = [[2, 2], [2, 2]]\<rparr>" "[]"]
  by (auto simp: rectangular_def)

text \<open>
  Claim C6 as stated fails in its last part: the classifier never looks at test examples.
  A challenge whose only training example is the two by two pair and whose test input
  has 201 cells has an example of area greater than 200 and is not listed as large.
\<close>

theorem large_ignores_test_examples_counterexample:
  "map_sum id large_grids
     (find_interesting_challenges
        [(''c'', \<lparr>train = [\<lparr>ex_input = [[1, 1], [1, 1]], ex_output = [[2, 2], [2, 2]]\<rparr>],
                  test = [\<lparr>ex_input = [replicate 201 0]\<rparr>]\<rparr>)] []) = Inr {}
   \<and> 200 < length (concat (ex_input \<lparr>ex_input = [replicate 201 0]\<rparr>))"
  by (simp add: find_interesting_challenges_def classify_example_def np_shape_def Let_def)

section \<open>The integer histogram\<close>

lemma length_extract_all_integers:
  "length (extract_all_integers challenges solutions) = cells_scanned challenges solutions"
proof -
  have one: "length (extract_challenge solutions item) =
        (\<Sum>example\<leftarrow>train (snd item). n_cells (ex_input example) + n_cells (ex_output example))
        + (\<Sum>example\<leftarrow>test (snd item). n_cells (ex_input example))
        + (case map_of solutions (fst item) of
             None \<Rightarrow> 0
           | Some solution_outputs \<Rightarrow> (\<Sum>g\<leftarrow>solution_outputs. n_cells g))" for item
    by (simp add: extract_challenge_def length_concat comp_def n_cells_def [abs_def] split: option.split)
  show ?thesis
    by (simp add: extract_all_integers_def cells_scanned_def length_concat comp_def one)
qed

lemma counter_get_count_one:
  "counter_get (count_one x c) k = counter_get c k + (if x = k then 1 else 0)"
  by (induction c) (auto simp: counter_get_def)

lemma counter_get_foldl:
  "counter_get (foldl (\<lambda>counter x. count_one x counter) c xs) k = counter_get c k + count_list xs k"
  by (induction xs arbitrary: c) (simp_all add: counter_get_count_one)

lemma counter_get_Counter: "counter_get (Counter xs) k = count_list xs k"
  by (simp add: Counter_def counter_get_foldl) (simp add: counter_get_def)

lemma sum_count_one: "sum_list (map snd (count_one x c)) = sum_list (map snd c) + 1"
  by (induction c) auto

lemma sum_Counter: "sum_list (map snd (Counter xs)) = length xs"
proof -
  have "sum_list (map snd (foldl (\<lambda>counter x. count_one x counter) c xs)) =
          sum_list (map snd c) + length xs" for c
    by (induction xs arbitrary: c) (simp_all add: sum_count_one)
  then show ?thesis by (simp add: Counter_def)
qed

lemma count_one_nonempty: "count_one x c \<noteq> []"
  by (cases c) simp_all

lemma count_one_positive:
  "list_all (\<lambda>item. 0 < snd item) c \<Longrightarrow> list_all (\<lambda>item. 0 < snd item) (count_one x c)"
  by (induction c) auto

lemma Counter_positive: "list_all (\<lambda>item. 0 < snd item) (Counter xs)"
proof -
  have "list_all (\<lambda>item. 0 < snd item) c \<Longrightarrow>
          list_all (\<lambda>item. 0 < snd item) (foldl (\<lambda>counter x. count_one x counter) c xs)" for c
    by (induction xs arbitrary: c) (simp_all add: count_one_positive)
  then show ?thesis by (simp add: Counter_def)
qed

lemma foldl_count_one_nonempty:
  "c \<noteq> [] \<Longrightarrow> foldl (\<lambda>counter x. count_one x counter) c xs \<noteq> []"
  by (induction xs arbitrary: c) (simp_all add: count_one_nonempty)

lemma Counter_nonempty: "xs \<noteq> [] \<Longrightarrow> Counter xs \<noteq> []"
  by (cases xs) (simp_all add: Counter_def foldl_count_one_nonempty)

lemma upt_10: "[0..<10] = [0, 1, 2, 3, 4, 5, 6, 7, 8, 9]"
  by (simp add: upt_rec)

lemma one_palette_index:
  assumes "0 \<le> x" "x \<le> 9"
  shows "(\<Sum>i\<leftarrow>[0..<10]. if x = int i then 1 else 0) = (1::nat)"
proof -
  have "x = 0 \<or> x = 1 \<or> x = 2 \<or> x = 3 \<or> x = 4 \<or> x = 5 \<or> x = 6 \<or> x = 7 \<or> x = 8 \<or> x = 9"
    using assms by arith
  moreover have "[0..<10] = [0, 1, 2, 3, 4, 5, 6, 7, 8, 9]"
    by (simp add: upt_rec)
  ultimately show ?thesis by auto
qed

lemma sum_count_list_palette:
  assumes "\<And>v. v \<in> set xs \<Longrightarrow> 0 \<le> v \<and> v \<le> 9"
  shows "(\<Sum>i\<leftarrow>[0..<10]. count_list xs (int i)) = length xs"
  using assms
proof (induction xs)
  case Nil
  then show ?case by simp
next
  case (Cons x xs)
  have "(\<Sum>i\<leftarrow>[0..<10]. count_list (x # xs) (int i)) =
          (\<Sum>i\<leftarrow>[0..<10]. (if x = int i then 1 else 0) + count_list xs (int i))"
    by (intro arg_cong[where f = sum_list] map_cong refl) simp
  also have "\<dots> = (\<Sum>i\<leftarrow>[0..<10]. if x = int i then 1 else 0) + (\<Sum>i\<leftarrow>[0..<10]. count_list xs (int i))"
    by (rule sum_list_addf)
  also have "(\<Sum>i\<leftarrow>[0..<10]. if x = int i then 1 else 0) = (1::nat)"
    using Cons.prems[of x] by (intro one_palette_index) simp_all
  also have "(\<Sum>i\<leftarrow>[0..<10]. count_list xs (int i)) = length xs"
    using Cons.prems by (intro Cons.IH) simp
  finally show ?case by simp
qed

lemma argmax_nonempty: "xs \<noteq> [] \<Longrightarrow> \<exists>i. argmax xs = Inr i"
  by (cases xs) (simp_all add: argmax_def)

lemma argmin_nonempty: "xs \<noteq> [] \<Longrightarrow> \<exists>i. argmin xs = Inr i"
  by (cases xs) (simp_all add: argmin_def)

lemma foldl_pick_mem:
  "foldl (\<lambda>best y. if P best y then y else best) x xs \<in> set (x # xs)"
  by (induction xs arbitrary: x) (simp, force)

lemma max_by_count_nonempty: "items \<noteq> [] \<Longrightarrow> \<exists>m. max_by_count items = Inr m \<and> m \<in> set items"
  using foldl_pick_mem[of "\<lambda>best y. snd best < snd y"]
  by (cases items) (simp_all add: max_by_count_def)

lemma min_by_count_nonempty: "items \<noteq> [] \<Longrightarrow> \<exists>m. min_by_count items = Inr m \<and> m \<in> set items"
  using foldl_pick_mem[of "\<lambda>best y. snd y < snd best"]
  by (cases items) (simp_all add: min_by_count_def)

lemma print_statistics_Counter:
  assumes "xs \<noteq> []"
  shows "\<exists>stats. print_statistics (Counter xs) = Inr stats \<and> total_cells stats = length xs"
proof -
  have pos: "filter (\<lambda>item. 0 < snd item) (Counter xs) = Counter xs"
    using Counter_positive[of xs] by (simp add: list_all_iff)
  obtain m where m: "max_by_count (Counter xs) = Inr m"
    using max_by_count_nonempty[OF Counter_nonempty[OF assms]] by blast
  obtain l where l: "min_by_count (Counter xs) = Inr l" "l \<in> set (Counter xs)"
    using min_by_count_nonempty[OF Counter_nonempty[OF assms]] by blast
  have "0 < snd l"
    using Counter_positive[of xs] l(2) by (simp add: list_all_iff)
  then show ?thesis
    by (simp add: print_statistics_def pos m l(1) sum_Counter)
qed

lemma histogram_run:
  assumes nonempty: "xs \<noteq> []" and palette: "\<And>v. v \<in> set xs \<Longrightarrow> 0 \<le> v \<and> v \<le> 9"
  shows "\<exists>shown counter stats. create_histogram xs = Inr (shown, counter)
           \<and> print_statistics counter = Inr stats
           \<and> length (frequencies shown) = 10
           \<and> sum_list (frequencies shown) = length xs
           \<and> total_count shown = length xs \<and> total_cells stats = length xs"
proof -
  define freqs where "freqs = map (\<lambda>i. counter_get (Counter xs) (int i)) [0..<10]"
  have len: "length freqs = 10" by (simp add: freqs_def)
  then have ne: "freqs \<noteq> []" by auto
  have sum: "sum_list freqs = length xs"
    using palette by (simp add: freqs_def counter_get_Counter sum_count_list_palette)
  obtain most where most: "argmax freqs = Inr most"
    using argmax_nonempty[OF ne] by blast
  obtain least where least: "argmin (map (\<lambda>f. if 0 < f then enat f else \<infinity>) freqs) = Inr least"
    using argmin_nonempty[of "map (\<lambda>f. if 0 < f then enat f else \<infinity>) freqs"] ne by auto
  obtain stats where stats: "print_statistics (Counter xs) = Inr stats" "total_cells stats = length xs"
    using print_statistics_Counter[OF nonempty] by blast
  have "create_histogram xs =
          Inr (\<lparr>frequencies = freqs, total_count = sum_list freqs,
                 unique_shown = length (filter (\<lambda>f. 0 < f) freqs),
                 most_common = most, most_common_times = Max (set freqs),
                 least_common = least\<rparr>, Counter xs)"
    unfolding create_histogram_def Let_def freqs_def[symmetric] most least and_then_Inr
    by (rule refl)
  with stats len sum show ?thesis by simp
qed

text \<open>
  Claim C4, as amended. For a data set whose scanned cells all lie in \<open>0..9\<close> and whose
  training part and evaluation part each hold at least one cell, the run with
  \<open>--training-only\<close>, the run with \<open>--test-only\<close> and the run without flags all report.
  In each of them the ten frequencies sum to the number of cells scanned in the selected
  part, which is also the total of the text box, the printed total and the number of
  integers collected; and the totals of the two single runs add up to the total of the
  run without flags.
\<close>

theorem histogram_totals:
  assumes palette:
      "\<forall>v\<in>set (extract_all_integers (train_challenges d) (train_solutions d))
            \<union> set (extract_all_integers (test_challenges d) (test_solutions d)). 0 \<le> v \<and> v \<le> 9"
    and train_cells: "extract_all_integers (train_challenges d) (train_solutions d) \<noteq> []"
    and test_cells: "extract_all_integers (test_challenges d) (test_solutions d) \<noteq> []"
  shows "\<exists>nt bt pt ne be pe nb bb pb.
           main True False d = Inr (Reported nt bt pt)
         \<and> main False True d = Inr (Reported ne be pe)
         \<and> main False False d = Inr (Reported nb bb pb)
         \<and> sum_list (frequencies bt) = cells_scanned (train_challenges d) (train_solutions d)
         \<and> sum_list (frequencies be) = cells_scanned (test_challenges d) (test_solutions d)
         \<and> sum_list (frequencies bb) = cells_scanned (train_challenges d) (train_solutions d)
                                        + cells_scanned (test_challenges d) (test_solutions d)
         \<and> length (frequencies bt) = 10 \<and> length (frequencies be) = 10 \<and> length (frequencies bb) = 10
         \<and> total_count bt = sum_list (frequencies bt) \<and> total_cells pt = total_count bt \<and> nt = total_count bt
         \<and> total_count be = sum_list (frequencies be) \<and> total_cells pe = total_count be \<and> ne = total_count be
         \<and> total_count bb = sum_list (frequencies bb) \<and> total_cells pb = total_count bb \<and> nb = total_count bb
         \<and> total_count bt + total_count be = total_count bb"
proof -
  define tr where "tr = extract_all_integers (train_challenges d) (train_solutions d)"
  define te where "te = extract_all_integers (test_challenges d) (test_solutions d)"
  have len_tr: "length tr = cells_scanned (train_challenges d) (train_solutions d)"
    and len_te: "length te = cells_scanned (test_challenges d) (test_solutions d)"
    by (simp_all add: tr_def te_def length_extract_all_integers)
  have ptr: "\<And>v. v \<in> set tr \<Longrightarrow> 0 \<le> v \<and> v \<le> 9" and pte: "\<And>v. v \<in> set te \<Longrightarrow> 0 \<le> v \<and> v \<le> 9"
    using palette by (auto simp: tr_def te_def)
  have pboth: "\<And>v. v \<in> set (tr @ te) \<Longrightarrow> 0 \<le> v \<and> v \<le> 9"
    using ptr pte by auto
  have ne_tr: "tr \<noteq> []" and ne_te: "te \<noteq> []"
    using train_cells test_cells by (simp_all add: tr_def te_def)
  obtain bt ct pt where t: "create_histogram tr = Inr (bt, ct)" "print_statistics ct = Inr pt"
      "length (frequencies bt) = 10" "sum_list (frequencies bt) = length tr"
      "total_count bt = length tr" "total_cells pt = length tr"
    using histogram_run[OF ne_tr ptr] by blast
  obtain be ce pe where e: "create_histogram te = Inr (be, ce)" "print_statistics ce = Inr pe"
      "length (frequencies be) = 10" "sum_list (frequencies be) = length te"
      "total_count be = length te" "total_cells pe = length te"
    using histogram_run[OF ne_te pte] by blast
  obtain bb cb pb where b: "create_histogram (tr @ te) = Inr (bb, cb)" "print_statistics cb = Inr pb"
      "length (frequencies bb) = 10" "sum_list (frequencies bb) = length (tr @ te)"
      "total_count bb = length (tr @ te)" "total_cells pb = length (tr @ te)"
    using histogram_run[of "tr @ te", OF _ pboth] ne_tr by auto
  have mains: "main True False d = Inr (Reported (length tr) bt pt)"
    "main False True d = Inr (Reported (length te) be pe)"
    "main False False d = Inr (Reported (length (tr @ te)) bb pb)"
    using ne_tr ne_te
    by (simp_all add: main_def Let_def t(1,2) e(1,2) b(1,2) flip: tr_def te_def)
  show ?thesis
    unfolding mains using t(3-6) e(3-6) b(3-6) len_tr len_te by simp
qed

theorem histogram_totals_witness:
  "extract_all_integers [(''a'', \<lparr>train = [\<lparr>ex_input = [[1, 0]], ex_output = [[0, 1]]\<rparr>],
                                  test = [\<lparr>ex_input = [[2]]\<rparr>]\<rparr>)] [(''a'', [[[3]]])] \<noteq> [] \<and>
   extract_all_integers [(''b'', \<lparr>train = [\<lparr>ex_input = [[9]], ex_output = [[9, 9]]\<rparr>],
                                  test = [\<lparr>ex_input = [[4]]\<rparr>]\<rparr>)] [] \<noteq> [] \<and>
   (\<exists>nt bt pt ne be pe nb bb pb.
      main True False
        \<lparr>train_challenges = [(''a'', \<lparr>train = [\<lparr>ex_input = [[1, 0]], ex_output = [[0, 1]]\<rparr>],
                                       test = [\<lparr>ex_input = [[2]]\<rparr>]\<rparr>)],
         train_solutions = [(''a'', [[[3]]])],
         test_challenges = [(''b'', \<lparr>train = [\<lparr>ex_input = [[9]], ex_output = [[9, 9]]\<rparr>],
                                      test = [\<lparr>ex_input = [[4]]\<rparr>]\<rparr>)],
         test_solutions = []\<rparr> = Inr (Reported nt bt pt)
    \<and> main False True
        \<lparr>train_challenges = [(''a'', \<lparr>train = [\<lparr>ex_input = [[1, 0]], ex_output = [[0, 1]]\<rparr>],
                                       test = [\<lparr>ex_input = [[2]]\<rparr>]\<rparr>)],
         train_solutions = [(''a'', [[[3]]])],
         test_challenges = [(''b'', \<lparr>train = [\<lparr>ex_input = [[9]], ex_output = [[9, 9]]\<rparr>],
                                      test = [\<lparr>ex_input = [[4]]\<rparr>]\<rparr>)],
         test_solutions = []\<rparr> = Inr (Reported ne be pe)
    \<and> main False False
        \<lparr>train_challenges = [(''a'', \<lparr>train = [\<lparr>ex_input = [[1, 0]], ex_output = [[0, 1]]\<rparr>],
                                       test = [\<lparr>ex_input = [[2]]\<rparr>]\<rparr>)],
         train_solutions = [(''a'', [[[3]]])],
         test_challenges = [(''b'', \<lparr>train = [\<lparr>ex_input = [[9]], ex_output = [[9, 9]]\<rparr>],
                                      test = [\<lparr>ex_input = [[4]]\<rparr>]\<rparr>)],
         test_solutions = []\<rparr> = Inr (Reported nb bb pb)
    \<and> sum_list (frequencies bt) = 6 \<and> sum_list (frequencies be) = 4
    \<and> sum_list (frequencies bb) = 10 \<and> total_count bt + total_count be = total_count bb)"
proof -
  let ?D = "\<lparr>train_challenges = [(''a'', \<lparr>train = [\<lparr>ex_input = [[1, 0]], ex_output = [[0, 1]]\<rparr>],
                                       test = [\<lparr>ex_input = [[2]]\<rparr>]\<rparr>)],
         train_solutions = [(''a'', [[[3]]])],
         test_challenges = [(''b'', \<lparr>train = [\<lparr>ex_input = [[9]], ex_output = [[9, 9]]\<rparr>],
                                      test = [\<lparr>ex_input = [[4]]\<rparr>]\<rparr>)],
         test_solutions = []\<rparr>"
  have tr: "extract_all_integers (train_challenges ?D) (train_solutions ?D) = [1, 0, 0, 1, 2, 3]"
    and te: "extract_all_integers (test_challenges ?D) (test_solutions ?D) = [9, 9, 9, 4]"
    by (simp_all add: extract_all_integers_def extract_challenge_def)
  have cells: "cells_scanned (train_challenges ?D) (train_solutions ?D) = 6"
      "cells_scanned (test_challenges ?D) (test_solutions ?D) = 4"
    by (simp_all add: cells_scanned_def n_cells_def)
  have palette: "\<forall>v\<in>set (extract_all_integers (train_challenges ?D) (train_solutions ?D))
            \<union> set (extract_all_integers (test_challenges ?D) (test_solutions ?D)). 0 \<le> v \<and> v \<le> 9"
    unfolding tr te by simp
  have ne: "extract_all_integers (train_challenges ?D) (train_solutions ?D) \<noteq> []"
      "extract_all_integers (test_challenges ?D) (test_solutions ?D) \<noteq> []"
    unfolding tr te by simp_all
  from histogram_totals[OF palette ne]
  obtain nt bt pt ne' be pe nb bb pb where
      "main True False ?D = Inr (Reported nt bt pt)"
      "main False True ?D = Inr (Reported ne' be pe)"
      "main False False ?D = Inr (Reported nb bb pb)"
      "sum_list (frequencies bt) = 6" "sum_list (frequencies be) = 4"
      "sum_list (frequencies bb) = 10" "total_count bt + total_count be = total_count bb"
    unfolding cells by auto
  moreover have "extract_all_integers [(''a'', \<lparr>train = [\<lparr>ex_input = [[1, 0]], ex_output = [[0, 1]]\<rparr>],
                                  test = [\<lparr>ex_input = [[2]]\<rparr>]\<rparr>)] [(''a'', [[[3]]])] \<noteq> []"
    "extract_all_integers [(''b'', \<lparr>train = [\<lparr>ex_input = [[9]], ex_output = [[9, 9]]\<rparr>],
                                  test = [\<lparr>ex_input = [[4]]\<rparr>]\<rparr>)] [] \<noteq> []"
    using ne by simp_all
  ultimately show ?thesis by blast
qed

text \<open>
  Claim C4 as stated fails for a data set with a cell outside \<open>0..9\<close>: the cell is counted
  by the counter and collected, but none of the ten frequencies counts it. For the
  single training pair \<open>[[10]]\<close> to \<open>[[0]]\<close> two cells are scanned and the ten frequencies
  sum to one.
\<close>

theorem histogram_outside_palette_counterexample:
  "map_sum id collected
     (main False False
        \<lparr>train_challenges = [(''c'', \<lparr>train = [\<lparr>ex_input = [[10]], ex_output = [[0]]\<rparr>], test = []\<rparr>)],
         train_solutions = [], test_challenges = [], test_solutions = []\<rparr>) = Inr 2
   \<and> map_sum id (sum_list \<circ> frequencies \<circ> box)
     (main False False
        \<lparr>train_challenges = [(''c'', \<lparr>train = [\<lparr>ex_input = [[10]], ex_output = [[0]]\<rparr>], test = []\<rparr>)],
         train_solutions = [], test_challenges = [], test_solutions = []\<rparr>) = Inr 1
   \<and> cells_scanned [(''c'', \<lparr>train = [\<lparr>ex_input = [[10]], ex_output = [[0]]\<rparr>], test = []\<rparr>)] [] = 2"
proof -
  have cells: "extract_all_integers
      [(''c'', \<lparr>train = [\<lparr>ex_input = [[10]], ex_output = [[0]]\<rparr>], test = []\<rparr>)] [] = [10, 0]"
    by (simp add: extract_all_integers_def extract_challenge_def)
  have counter: "Counter [10, 0] = [(10, 1), (0, 1)]"
    by (simp add: Counter_def)
  have freqs: "map (\<lambda>i. counter_get [(10, 1), (0, 1)] (int i)) [0..<10] = [1, 0, 0, 0, 0, 0, 0, 0, 0, 0]"
    by (simp add: upt_10 counter_get_def)
  have shown: "create_histogram [10, 0] =
      Inr (\<lparr>frequencies = [1, 0, 0, 0, 0, 0, 0, 0, 0, 0], total_count = 1, unique_shown = 1,
             most_common = 0, most_common_times = 1, least_common = 0\<rparr>, [(10, 1), (0, 1)])"
    unfolding create_histogram_def Let_def counter freqs
    by (simp add: argmax_def argmin_def)
  have stats: "\<exists>stats. print_statistics [(10, 1), (0, 1)] = Inr stats"
    by (simp add: print_statistics_def max_by_count_def min_by_count_def)
  then obtain stats where "print_statistics [(10, 1), (0, 1)] = Inr stats" ..
  then have "main False False
        \<lparr>train_challenges = [(''c'', \<lparr>train = [\<lparr>ex_input = [[10]], ex_output = [[0]]\<rparr>], test = []\<rparr>)],
         train_solutions = [], test_challenges = [], test_solutions = []\<rparr> =
      Inr (Reported 2 \<lparr>frequencies = [1, 0, 0, 0, 0, 0, 0, 0, 0, 0], total_count = 1, unique_shown = 1,
             most_common = 0, most_common_times = 1, least_common = 0\<rparr> stats)"
    unfolding main_def Let_def dataset.simps cells
    by (simp add: shown extract_all_integers_def)
  then show ?thesis
    by (simp add: cells_scanned_def n_cells_def)
qed

text \<open>
  Claim C3 at a tie. One training pair \<open>[[1]]\<close> to \<open>[[0]]\<close> gives the cells 1 and 0, once
  each. The text box of \<open>create_histogram\<close> takes \<open>argmax\<close> and \<open>argmin\<close> over the palette
  indices and names 0 as most and as least common value: the lowest index wins. The
  table of \<open>print_statistics\<close> takes \<open>max\<close> and \<open>min\<close> over the items of the counter, which
  stand in the order of first occurrence, and names 1 for both. The ratio is the
  quotient of the two counts.
\<close>

theorem print_statistics_tie_first_occurrence:
  "map_sum id (most_common \<circ> box)
     (main False False
        \<lparr>train_challenges = [(''c'', \<lparr>train = [\<lparr>ex_input = [[1]], ex_output = [[0]]\<rparr>], test = []\<rparr>)],
         train_solutions = [], test_challenges = [], test_solutions = []\<rparr>) = Inr 0
   \<and> map_sum id (least_common \<circ> box)
     (main False False
        \<lparr>train_challenges = [(''c'', \<lparr>train = [\<lparr>ex_input = [[1]], ex_output = [[0]]\<rparr>], test = []\<rparr>)],
         train_solutions = [], test_challenges = [], test_solutions = []\<rparr>) = Inr 0
   \<and> map_sum id (most_common_value \<circ> printed)
     (main False False
        \<lparr>train_challenges = [(''c'', \<lparr>train = [\<lparr>ex_input = [[1]], ex_output = [[0]]\<rparr>], test = []\<rparr>)],
         train_solutions = [], test_challenges = [], test_solutions = []\<rparr>) = Inr (1, 1)
   \<and> map_sum id (least_common_value \<circ> printed)
     (main False False
        \<lparr>train_challenges = [(''c'', \<lparr>train = [\<lparr>ex_input = [[1]], ex_output = [[0]]\<rparr>], test = []\<rparr>)],
         train_solutions = [], test_challenges = [], test_solutions = []\<rparr>) = Inr (1, 1)
   \<and> map_sum id (ratio \<circ> printed)
     (main False False
        \<lparr>train_challenges = [(''c'', \<lparr>train = [\<lparr>ex_input = [[1]], ex_output = [[0]]\<rparr>], test = []\<rparr>)],
         train_solutions = [], test_challenges = [], test_solutions = []\<rparr>) = Inr 1"
proof -
  have cells: "extract_all_integers
      [(''c'', \<lparr>train = [\<lparr>ex_input = [[1]], ex_output = [[0]]\<rparr>], test = []\<rparr>)] [] = [1, 0]"
    by (simp add: extract_all_integers_def extract_challenge_def)
  have counter: "Counter [1, 0] = [(1, 1), (0, 1)]"
    by (simp add: Counter_def)
  have freqs: "map (\<lambda>i. counter_get [(1, 1), (0, 1)] (int i)) [0..<10] = [1, 1, 0, 0, 0, 0, 0, 0, 0, 0]"
    by (simp add: upt_10 counter_get_def)
  have shown: "create_histogram [1, 0] =
      Inr (\<lparr>frequencies = [1, 1, 0, 0, 0, 0, 0, 0, 0, 0], total_count = 2, unique_shown = 2,
             most_common = 0, most_common_times = 1, least_common = 0\<rparr>, [(1, 1), (0, 1)])"
    unfolding create_histogram_def Let_def counter freqs
    by (simp add: argmax_def argmin_def)
  have stats: "print_statistics [(1, 1), (0, 1)] =
      Inr \<lparr>total_cells = 2, unique_found = 2, table = [1, 1, 0, 0, 0, 0, 0, 0, 0, 0],
            most_common_value = (1, 1), least_common_value = (1, 1), ratio = 1\<rparr>"
    unfolding print_statistics_def freqs
    by (simp add: max_by_count_def min_by_count_def)
  have "main False False
        \<lparr>train_challenges = [(''c'', \<lparr>train = [\<lparr>ex_input = [[1]], ex_output = [[0]]\<rparr>], test = []\<rparr>)],
         train_solutions = [], test_challenges = [], test_solutions = []\<rparr> =
      Inr (Reported 2
             \<lparr>frequencies = [1, 1, 0, 0, 0, 0, 0, 0, 0, 0], total_count = 2, unique_shown = 2,
               most_common = 0, most_common_times = 1, least_common = 0\<rparr>
             \<lparr>total_cells = 2, unique_found = 2, table = [1, 1, 0, 0, 0, 0, 0, 0, 0, 0],
               most_common_value = (1, 1), least_common_value = (1, 1), ratio = 1\<rparr>)"
    unfolding main_def Let_def dataset.simps cells
    by (simp add: shown stats extract_all_integers_def del: One_nat_def)
  then show ?thesis by simp
qed

section \<open>The challenge composer\<close>

declare str_nat.simps [simp del]

lemma plot_grid_clear: "plot_grid ax g ttl m = plot_grid empty_axes g ttl m"
  by (simp add: plot_grid_def)

lemma plot_grid_title:
  "plot_grid ax g ttl m = map_sum id (\<lambda>a. a\<lparr>title := ttl\<rparr>) (plot_grid ax g [] m)"
  by (auto simp: plot_grid_def and_then_def split: sum.splits)

lemma renders_drawn: "renders g \<Longrightarrow> plot_grid ax g ttl 30 = Inr (drawn g ttl)"
proof -
  assume "renders g"
  then obtain a where a: "plot_grid empty_axes g [] 30 = Inr a"
    by (auto simp: renders_def split: sum.splits)
  have "plot_grid empty_axes g ttl 30 = Inr (a\<lparr>title := ttl\<rparr>)"
    by (subst plot_grid_title) (simp add: a)
  then show ?thesis
    by (simp add: plot_grid_clear[of ax] drawn_def)
qed

lemma update_fresh: "k \<notin> fst ` set al \<Longrightarrow> AList.update k v al = al @ [(k, v)]"
  by (induction al) auto

lemma map_of_fresh: "k \<notin> fst ` set al \<Longrightarrow> map_of al k = None"
  by (simp add: map_of_eq_None_iff)

lemma draw_grid_fresh:
  assumes "renders g" "1 \<le> pos" "pos \<le> 2 * C" "(2, C, pos) \<notin> fst ` set (panels fig)"
  shows "draw_grid fig C pos g ttl = Inr (fig\<lparr>panels := panels fig @ [((2, C, pos), drawn g ttl)]\<rparr>)"
  using assms
  by (simp add: draw_grid_def subplot_def renders_drawn update_fresh)

lemma draw_placeholder_fresh:
  assumes "1 \<le> pos" "pos \<le> 2 * C" "(2, C, pos) \<notin> fst ` set (panels fig)"
  shows "draw_placeholder fig C pos ttl =
           Inr (fig\<lparr>panels := panels fig @ [((2, C, pos), placeholder_axes ttl)]\<rparr>)"
  using assms
  by (simp add: draw_placeholder_def subplot_def map_of_fresh update_fresh placeholder_axes_def
        empty_axes_def)

lemma train_panels_single:
  "train_panels C i [ex] =
     [((2, C, i * 2 + 1), drawn (ex_input ex) (''Train '' @ str_nat (i + 1) @ '' Input'')),
      ((2, C, i * 2 + 2), drawn (ex_output ex) (''Train '' @ str_nat (i + 1) @ '' Output''))]"
  by (simp add: train_panels_def)

lemma train_panels_Cons:
  "train_panels C i (ex # exs) = train_panels C i [ex] @ train_panels C (Suc i) exs"
  by (simp add: train_panels_def)

lemma train_step_fresh:
  assumes r: "renders (ex_input ex)" "renders (ex_output ex)"
    and used: "\<And>key. key \<in> fst ` set (panels fig) \<Longrightarrow> snd (snd key) \<le> 2 * i"
    and room: "i < C"
  shows "train_step C (i, ex) fig =
           Inr (fig\<lparr>panels := panels fig @ train_panels C i [ex]\<rparr>)"
proof -
  have fresh1: "(2, C, i * 2 + 1) \<notin> fst ` set (panels fig)"
    using used by fastforce
  have first: "draw_grid fig C (i * 2 + 1) (ex_input ex) (''Train '' @ str_nat (i + 1) @ '' Input'') =
      Inr (fig\<lparr>panels := panels fig @
             [((2, C, i * 2 + 1), drawn (ex_input ex) (''Train '' @ str_nat (i + 1) @ '' Input''))]\<rparr>)"
    using r(1) room fresh1 by (intro draw_grid_fresh) simp_all
  have fresh2: "(2, C, i * 2 + 2) \<notin> fst ` set (panels fig @
             [((2, C, i * 2 + 1), drawn (ex_input ex) (''Train '' @ str_nat (i + 1) @ '' Input''))])"
    using used by fastforce
  have second: "draw_grid (fig\<lparr>panels := panels fig @
             [((2, C, i * 2 + 1), drawn (ex_input ex) (''Train '' @ str_nat (i + 1) @ '' Input''))]\<rparr>)
          C (i * 2 + 2) (ex_output ex) (''Train '' @ str_nat (i + 1) @ '' Output'') =
      Inr (fig\<lparr>panels := panels fig @
             [((2, C, i * 2 + 1), drawn (ex_input ex) (''Train '' @ str_nat (i + 1) @ '' Input'')),
              ((2, C, i * 2 + 2), drawn (ex_output ex) (''Train '' @ str_nat (i + 1) @ '' Output''))]\<rparr>)"
    using r(2) room fresh2 by (subst draw_grid_fresh) simp_all
  show ?thesis
    unfolding train_step_def prod.case first and_then_Inr second train_panels_single
    by (rule refl)
qed

lemma train_panels_keys:
  "key \<in> fst ` set (train_panels C i exs) \<Longrightarrow>
     fst key = 2 \<and> fst (snd key) = C \<and> 2 * i < snd (snd key) \<and> snd (snd key) \<le> 2 * (i + length exs)"
proof (induction exs arbitrary: i)
  case Nil
  then show ?case by (simp add: train_panels_def)
next
  case (Cons ex exs)
  from Cons.prems consider
      (head) "key \<in> fst ` set (train_panels C i [ex])"
    | (tail) "key \<in> fst ` set (train_panels C (Suc i) exs)"
    unfolding train_panels_Cons[of C i ex exs] by auto
  then show ?case
  proof cases
    case head
    then have "key = (2, C, i * 2 + 1) \<or> key = (2, C, i * 2 + 2)"
      unfolding train_panels_single by simp
    then show ?thesis by auto
  next
    case tail
    from Cons.IH[OF tail] show ?thesis by simp
  qed
qed

lemma train_loop:
  assumes r: "\<And>ex. ex \<in> set exs \<Longrightarrow> renders (ex_input ex) \<and> renders (ex_output ex)"
    and used: "\<And>key. key \<in> fst ` set (panels fig) \<Longrightarrow> snd (snd key) \<le> 2 * i0"
    and room: "i0 + length exs \<le> C"
  shows "foldM (train_step C) (List.enumerate i0 exs) fig =
           Inr (fig\<lparr>panels := panels fig @ train_panels C i0 exs\<rparr>)"
  using assms
proof (induction exs arbitrary: i0 fig)
  case Nil
  then show ?case by (simp add: train_panels_def)
next
  case (Cons ex exs)
  let ?fig = "fig\<lparr>panels := panels fig @ train_panels C i0 [ex]\<rparr>"
  have step: "train_step C (i0, ex) fig = Inr ?fig"
    using Cons.prems(1)[of ex] Cons.prems(2,3) by (intro train_step_fresh) simp_all
  have used': "snd (snd key) \<le> 2 * Suc i0" if "key \<in> fst ` set (panels ?fig)" for key
  proof -
    from that consider (old) "key \<in> fst ` set (panels fig)"
      | (new) "key \<in> fst ` set (train_panels C i0 [ex])"
      by auto
    then show ?thesis
    proof cases
      case old
      from Cons.prems(2)[OF old] show ?thesis by simp
    next
      case new
      from train_panels_keys[OF new] show ?thesis by simp
    qed
  qed
  have rest: "foldM (train_step C) (List.enumerate (Suc i0) exs) ?fig =
          Inr (?fig\<lparr>panels := panels ?fig @ train_panels C (Suc i0) exs\<rparr>)"
    using Cons.prems(1,3) used' by (intro Cons.IH) simp_all
  show ?case
    by (simp add: step rest train_panels_Cons[of C i0 ex exs])
qed

lemma test_panels_single:
  "test_panels C sol i [ex] =
     [((2, C, C + i * 2 + 1), drawn (ex_input ex) (''Test '' @ str_nat (i + 1) @ '' Input'')),
      ((2, C, C + i * 2 + 2), solution_panel sol i)]"
  by (simp add: test_panels_def)

lemma test_panels_Cons:
  "test_panels C sol i (ex # exs) = test_panels C sol i [ex] @ test_panels C sol (Suc i) exs"
  by (simp add: test_panels_def)

lemma test_step_fresh:
  assumes r: "renders (ex_input ex)"
    and rs: "\<And>l. sol = Some l \<Longrightarrow> i < length l \<Longrightarrow> renders (l ! i)"
    and used: "\<And>key. key \<in> fst ` set (panels fig) \<Longrightarrow> snd (snd key) \<le> C + 2 * i"
    and room: "2 * i + 2 \<le> C"
  shows "test_step C sol (i, ex) fig =
           Inr (fig\<lparr>panels := panels fig @ test_panels C sol i [ex]\<rparr>)"
proof -
  let ?t_in = "''Test '' @ str_nat (i + 1) @ '' Input''"
  let ?t_sol = "''Test '' @ str_nat (i + 1) @ '' Solution''"
  let ?fig = "fig\<lparr>panels := panels fig @ [((2, C, C + i * 2 + 1), drawn (ex_input ex) ?t_in)]\<rparr>"
  have fresh1: "(2, C, C + i * 2 + 1) \<notin> fst ` set (panels fig)"
    using used by fastforce
  have first: "draw_grid fig C (C + i * 2 + 1) (ex_input ex) ?t_in = Inr ?fig"
    using r room fresh1 by (intro draw_grid_fresh) simp_all
  have fresh2: "(2, C, C + i * 2 + 2) \<notin> fst ` set (panels ?fig)"
    using used by fastforce
  have pos: "1 \<le> C + i * 2 + 2" "C + i * 2 + 2 \<le> 2 * C"
    using room by simp_all
  have holder: "draw_placeholder ?fig C (C + i * 2 + 2) ?t_sol =
      Inr (?fig\<lparr>panels := panels ?fig @ [((2, C, C + i * 2 + 2), placeholder_axes ?t_sol)]\<rparr>)"
    using pos fresh2 by (rule draw_placeholder_fresh)
  have solved: "draw_grid ?fig C (C + i * 2 + 2) (l ! i) ?t_sol =
      Inr (?fig\<lparr>panels := panels ?fig @ [((2, C, C + i * 2 + 2), drawn (l ! i) ?t_sol)]\<rparr>)"
    if "sol = Some l" "i < length l" for l
    using rs[OF that] pos fresh2 by (rule draw_grid_fresh)
  have second: "(case sol of
            None \<Rightarrow> draw_placeholder ?fig C (C + i * 2 + 2) ?t_sol
          | Some solution_list \<Rightarrow>
              if solution_list \<noteq> [] \<and> i < length solution_list
              then draw_grid ?fig C (C + i * 2 + 2) (solution_list ! i) ?t_sol
              else draw_placeholder ?fig C (C + i * 2 + 2) ?t_sol) =
      Inr (?fig\<lparr>panels := panels ?fig @ [((2, C, C + i * 2 + 2), solution_panel sol i)]\<rparr>)"
  proof (cases sol)
    case None
    then show ?thesis by (simp only: option.case holder solution_panel_def)
  next
    case (Some l)
    show ?thesis
    proof (cases "i < length l")
      case True
      then have "l \<noteq> []" by auto
      with True Some solved[OF Some True] show ?thesis
        by (simp only: option.case solution_panel_def if_True simp_thms)
    next
      case False
      with Some holder show ?thesis
        by (simp only: option.case solution_panel_def if_False simp_thms)
    qed
  qed
  have "test_step C sol (i, ex) fig =
      Inr (?fig\<lparr>panels := panels ?fig @ [((2, C, C + i * 2 + 2), solution_panel sol i)]\<rparr>)"
    unfolding test_step_def prod.case Let_def first and_then_Inr second by (rule refl)
  then show ?thesis
    by (simp add: test_panels_single)
qed

lemma test_panels_keys:
  "key \<in> fst ` set (test_panels C sol i exs) \<Longrightarrow>
     fst key = 2 \<and> fst (snd key) = C \<and> C + 2 * i < snd (snd key)
     \<and> snd (snd key) \<le> C + 2 * (i + length exs)"
proof (induction exs arbitrary: i)
  case Nil
  then show ?case by (simp add: test_panels_def)
next
  case (Cons ex exs)
  from Cons.prems consider
      (head) "key \<in> fst ` set (test_panels C sol i [ex])"
    | (tail) "key \<in> fst ` set (test_panels C sol (Suc i) exs)"
    unfolding test_panels_Cons[of C sol i ex exs] by auto
  then show ?case
  proof cases
    case head
    then have "key = (2, C, C + i * 2 + 1) \<or> key = (2, C, C + i * 2 + 2)"
      unfolding test_panels_single by simp
    then show ?thesis by auto
  next
    case tail
    from Cons.IH[OF tail] show ?thesis by simp
  qed
qed

lemma test_loop:
  assumes r: "\<And>ex. ex \<in> set exs \<Longrightarrow> renders (ex_input ex)"
    and rs: "\<And>l i. sol = Some l \<Longrightarrow> i0 \<le> i \<Longrightarrow> i < i0 + length exs \<Longrightarrow> i < length l
               \<Longrightarrow> renders (l ! i)"
    and used: "\<And>key. key \<in> fst ` set (panels fig) \<Longrightarrow> snd (snd key) \<le> C + 2 * i0"
    and room: "2 * (i0 + length exs) \<le> C"
  shows "foldM (test_step C sol) (List.enumerate i0 exs) fig =
           Inr (fig\<lparr>panels := panels fig @ test_panels C sol i0 exs\<rparr>)"
  using assms
proof (induction exs arbitrary: i0 fig)
  case Nil
  then show ?case by (simp add: test_panels_def)
next
  case (Cons ex exs)
  let ?fig = "fig\<lparr>panels := panels fig @ test_panels C sol i0 [ex]\<rparr>"
  have step: "test_step C sol (i0, ex) fig = Inr ?fig"
  proof (rule test_step_fresh)
    show "renders (ex_input ex)" using Cons.prems(1)[of ex] by simp
    show "renders (l ! i0)" if "sol = Some l" "i0 < length l" for l
      using Cons.prems(2)[of l i0] that by simp
    show "snd (snd key) \<le> C + 2 * i0" if "key \<in> fst ` set (panels fig)" for key
      using Cons.prems(3)[OF that] .
    show "2 * i0 + 2 \<le> C" using Cons.prems(4) by simp
  qed
  have used': "snd (snd key) \<le> C + 2 * Suc i0" if "key \<in> fst ` set (panels ?fig)" for key
  proof -
    from that consider (old) "key \<in> fst ` set (panels fig)"
      | (new) "key \<in> fst ` set (test_panels C sol i0 [ex])"
      by auto
    then show ?thesis
    proof cases
      case old
      from Cons.prems(3)[OF old] show ?thesis by simp
    next
      case new
      from test_panels_keys[OF new] show ?thesis by simp
    qed
  qed
  have rest: "foldM (test_step C sol) (List.enumerate (Suc i0) exs) ?fig =
          Inr (?fig\<lparr>panels := panels ?fig @ test_panels C sol (Suc i0) exs\<rparr>)"
  proof (rule Cons.IH)
    show "renders (ex_input e)" if "e \<in> set exs" for e
      using Cons.prems(1)[of e] that by simp
    show "renders (l ! i)" if "sol = Some l" "Suc i0 \<le> i" "i < Suc i0 + length exs" "i < length l" for l i
      using Cons.prems(2)[of l i] that by simp
    show "snd (snd key) \<le> C + 2 * Suc i0" if "key \<in> fst ` set (panels ?fig)" for key
      using used'[OF that] .
    show "2 * (Suc i0 + length exs) \<le> C" using Cons.prems(4) by simp
  qed
  show ?case
    by (simp add: step rest test_panels_Cons[of C sol i0 ex exs])
qed

lemma compose_figure_run:
  assumes tr: "\<And>ex. ex \<in> set (train ch) \<Longrightarrow> renders (ex_input ex) \<and> renders (ex_output ex)"
    and te: "\<And>ex. ex \<in> set (test ch) \<Longrightarrow> renders (ex_input ex)"
    and so: "\<And>l i. sol = Some l \<Longrightarrow> i < length (test ch) \<Longrightarrow> i < length l \<Longrightarrow> renders (l ! i)"
  shows "compose_figure cid ch sol =
           Inr \<lparr>suptitle = ''ARC Challenge: '' @ cid,
                figsize = (of_nat (max (length (train ch) * 2) (length (test ch) * 2)) * (5 / 2), 6),
                panels = train_panels (max (length (train ch) * 2) (length (test ch) * 2)) 0 (train ch)
                       @ test_panels (max (length (train ch) * 2) (length (test ch) * 2)) sol 0 (test ch)\<rparr>"
proof -
  define C where "C = max (length (train ch) * 2) (length (test ch) * 2)"
  define fig0 where "fig0 = \<lparr>suptitle = ''ARC Challenge: '' @ cid,
                figsize = (of_nat C * (5 / 2), 6), panels = []\<rparr>"
  let ?fig1 = "fig0\<lparr>panels := panels fig0 @ train_panels C 0 (train ch)\<rparr>"
  have first: "foldM (train_step C) (List.enumerate 0 (train ch)) fig0 = Inr ?fig1"
  proof (rule train_loop)
    show "renders (ex_input ex) \<and> renders (ex_output ex)" if "ex \<in> set (train ch)" for ex
      using tr[OF that] .
    show "snd (snd key) \<le> 2 * 0" if "key \<in> fst ` set (panels fig0)" for key
      using that by (simp add: fig0_def)
    show "0 + length (train ch) \<le> C" by (simp add: C_def)
  qed
  have second: "foldM (test_step C sol) (List.enumerate 0 (test ch)) ?fig1 =
      Inr (?fig1\<lparr>panels := panels ?fig1 @ test_panels C sol 0 (test ch)\<rparr>)"
  proof (rule test_loop)
    show "renders (ex_input ex)" if "ex \<in> set (test ch)" for ex
      using te[OF that] .
    show "renders (l ! i)" if "sol = Some l" "0 \<le> i" "i < 0 + length (test ch)" "i < length l" for l i
      using so[of l i] that by simp
    show "snd (snd key) \<le> C + 2 * 0" if "key \<in> fst ` set (panels ?fig1)" for key
    proof -
      from that have "key \<in> fst ` set (train_panels C 0 (train ch))"
        by (simp add: fig0_def)
      from train_panels_keys[OF this] have "snd (snd key) \<le> 2 * length (train ch)" by simp
      moreover have "2 * length (train ch) \<le> C" by (simp add: C_def)
      ultimately show ?thesis by simp
    qed
    show "2 * (0 + length (test ch)) \<le> C" by (simp add: C_def)
  qed
  have "compose_figure cid ch sol =
      Inr (?fig1\<lparr>panels := panels ?fig1 @ test_panels C sol 0 (test ch)\<rparr>)"
    unfolding compose_figure_def Let_def C_def[symmetric] fig0_def[symmetric] first and_then_Inr second
    by (rule refl)
  then show ?thesis
    by (simp add: fig0_def C_def)
qed

lemma map_of_train_panels:
  assumes "i < length exs"
  shows "map_of (train_panels C i0 exs) (2, C, (i0 + i) * 2 + 1) =
           Some (drawn (ex_input (exs ! i)) (''Train '' @ str_nat (i0 + i + 1) @ '' Input''))"
    and "map_of (train_panels C i0 exs) (2, C, (i0 + i) * 2 + 2) =
           Some (drawn (ex_output (exs ! i)) (''Train '' @ str_nat (i0 + i + 1) @ '' Output''))"
  using assms
proof (induction exs arbitrary: i0 i)
  case Nil
  { case 1 then show ?case by simp }
  { case 2 then show ?case by simp }
next
  case (Cons ex exs)
  { case 1
    show ?case
    proof (cases i)
      case 0
      then show ?thesis
        unfolding train_panels_Cons[of C i0 ex exs] train_panels_single by simp
    next
      case (Suc j)
      with 1 have j: "j < length exs" by simp
      from Cons.IH(1)[OF j, of "Suc i0"] Suc show ?thesis
        unfolding train_panels_Cons[of C i0 ex exs] train_panels_single by simp
    qed }
  { case 2
    show ?case
    proof (cases i)
      case 0
      then show ?thesis
        unfolding train_panels_Cons[of C i0 ex exs] train_panels_single by simp
    next
      case (Suc j)
      with 2 have j: "j < length exs" by simp
      from Cons.IH(2)[OF j, of "Suc i0"] Suc show ?thesis
        unfolding train_panels_Cons[of C i0 ex exs] train_panels_single by simp
    qed }
qed

lemma map_of_test_panels:
  assumes "i < length exs"
  shows "map_of (test_panels C sol i0 exs) (2, C, C + (i0 + i) * 2 + 1) =
           Some (drawn (ex_input (exs ! i)) (''Test '' @ str_nat (i0 + i + 1) @ '' Input''))"
    and "map_of (test_panels C sol i0 exs) (2, C, C + (i0 + i) * 2 + 2) =
           Some (solution_panel sol (i0 + i))"
  using assms
proof (induction exs arbitrary: i0 i)
  case Nil
  { case 1 then show ?case by simp }
  { case 2 then show ?case by simp }
next
  case (Cons ex exs)
  { case 1
    show ?case
    proof (cases i)
      case 0
      then show ?thesis
        unfolding test_panels_Cons[of C sol i0 ex exs] test_panels_single by simp
    next
      case (Suc j)
      with 1 have j: "j < length exs" by simp
      from Cons.IH(1)[OF j, of "Suc i0"] Suc show ?thesis
        unfolding test_panels_Cons[of C sol i0 ex exs] test_panels_single by simp
    qed }
  { case 2
    show ?case
    proof (cases i)
      case 0
      then show ?thesis
        unfolding test_panels_Cons[of C sol i0 ex exs] test_panels_single by simp
    next
      case (Suc j)
      with 2 have j: "j < length exs" by simp
      from Cons.IH(2)[OF j, of "Suc i0"] Suc show ?thesis
        unfolding test_panels_Cons[of C sol i0 ex exs] test_panels_single by simp
    qed }
qed

lemma keys_train_panels:
  "map fst (train_panels C i0 exs) =
     concat (map (\<lambda>i. [(2, C, i * 2 + 1), (2, C, i * 2 + 2)]) [i0..<i0 + length exs])"
proof (induction exs arbitrary: i0)
  case Nil
  then show ?case by (simp add: train_panels_def)
next
  case (Cons ex exs)
  have "[i0..<i0 + length (ex # exs)] = i0 # [Suc i0..<i0 + length (ex # exs)]"
    by (rule upt_conv_Cons) simp
  also have "i0 + length (ex # exs) = Suc i0 + length exs"
    by simp
  finally show ?case
    unfolding train_panels_Cons[of C i0 ex exs] train_panels_single
    by (simp add: Cons.IH)
qed

lemma keys_test_panels:
  "map fst (test_panels C sol i0 exs) =
     concat (map (\<lambda>i. [(2, C, C + i * 2 + 1), (2, C, C + i * 2 + 2)]) [i0..<i0 + length exs])"
proof (induction exs arbitrary: i0)
  case Nil
  then show ?case by (simp add: test_panels_def)
next
  case (Cons ex exs)
  have "[i0..<i0 + length (ex # exs)] = i0 # [Suc i0..<i0 + length (ex # exs)]"
    by (rule upt_conv_Cons) simp
  also have "i0 + length (ex # exs) = Suc i0 + length exs"
    by simp
  finally show ?case
    unfolding test_panels_Cons[of C sol i0 ex exs] test_panels_single
    by (simp add: Cons.IH)
qed

lemma panel_of_train:
  assumes "i < length tr"
  shows "map_of (train_panels C 0 tr @ test_panels C sol 0 te) (2, C, i * 2 + 1) =
           Some (drawn (ex_input (tr ! i)) (''Train '' @ str_nat (i + 1) @ '' Input''))"
    and "map_of (train_panels C 0 tr @ test_panels C sol 0 te) (2, C, i * 2 + 2) =
           Some (drawn (ex_output (tr ! i)) (''Train '' @ str_nat (i + 1) @ '' Output''))"
  using map_of_train_panels[OF assms, of C 0]
  by simp_all

lemma panel_of_test:
  assumes "i < length te" "2 * length tr \<le> C"
  shows "map_of (train_panels C 0 tr @ test_panels C sol 0 te) (2, C, C + i * 2 + 1) =
           Some (drawn (ex_input (te ! i)) (''Test '' @ str_nat (i + 1) @ '' Input''))"
    and "map_of (train_panels C 0 tr @ test_panels C sol 0 te) (2, C, C + i * 2 + 2) =
           Some (solution_panel sol i)"
proof -
  have none: "map_of (train_panels C 0 tr) (2, C, C + i * 2 + k) = None" if "0 < k" for k
  proof -
    have "(2, C, C + i * 2 + k) \<notin> fst ` set (train_panels C 0 tr)"
    proof
      assume "(2, C, C + i * 2 + k) \<in> fst ` set (train_panels C 0 tr)"
      from train_panels_keys[OF this] have "C + i * 2 + k \<le> 2 * length tr" by simp
      with assms(2) that show False by simp
    qed
    then show ?thesis by (rule map_of_fresh)
  qed
  show "map_of (train_panels C 0 tr @ test_panels C sol 0 te) (2, C, C + i * 2 + 1) =
           Some (drawn (ex_input (te ! i)) (''Test '' @ str_nat (i + 1) @ '' Input''))"
    using map_of_test_panels(1)[OF assms(1), of C sol 0] none[of 1]
    by (simp add: map_add_def)
  show "map_of (train_panels C 0 tr @ test_panels C sol 0 te) (2, C, C + i * 2 + 2) =
           Some (solution_panel sol i)"
    using map_of_test_panels(2)[OF assms(1), of C sol 0] none[of 2]
    by (simp add: map_add_def)
qed

lemma plot_grid_result:
  "plot_grid ax g ttl m = Inr a \<Longrightarrow> texts a = [] \<and> title a = ttl"
  by (auto simp: plot_grid_def and_then_def empty_axes_def split: sum.splits)

lemma drawn_plain: "renders g \<Longrightarrow> texts (drawn g ttl) = [] \<and> title (drawn g ttl) = ttl"
  using renders_drawn[of g empty_axes ttl] plot_grid_result by blast

lemma renders_palette_grid:
  assumes shape: "np_shape g = Inr [h, w]" and fits: "h \<le> 30" "w \<le> 30"
    and palette: "\<forall>row\<in>set g. \<forall>v\<in>set row. - 1 \<le> v \<and> v \<le> 9"
  shows "renders g"
proof -
  have cells: "- 1 \<le> g ! i ! j \<and> g ! i ! j \<le> 9" if "i < h" "j < w" for i j
    using palette grid_cell_mem[OF shape that] by blast
  have "\<exists>ps. plot_grid empty_axes g [] 30 =
              Inr (empty_axes\<lparr>xlim := (0, int dw), ylim := (0, int dh), y_inverted := True,
                     patches := ps, title := []\<rparr>)
            \<and> length ps = dh * dw
            \<and> (\<forall>i<dh. \<forall>j<dw. cell_patch i j (shown ! i ! j) = Inr (ps ! (i * dw + j)))"
    if "display_grid g 30 = Inr (shown, dh, dw)"
       "\<And>i j. i < dh \<Longrightarrow> j < dw \<Longrightarrow> - 1 \<le> shown ! i ! j \<and> shown ! i ! j \<le> 9" for shown dh dw
    using that by (rule plot_grid_draws)
  moreover have "\<exists>shown dh dw. display_grid g 30 = Inr (shown, dh, dw) \<and>
      (\<forall>i<dh. \<forall>j<dw. - 1 \<le> shown ! i ! j \<and> shown ! i ! j \<le> 9)"
  proof (cases "h < 30 \<or> w < 30")
    case True
    define sh where "sh = nat ((30 - int h) div 2)"
    define sw where "sw = nat ((30 - int w) div 2)"
    define canvas where "canvas = map (\<lambda>i. map (\<lambda>j. centred g h w sh sw i j) [0..<30]) [0..<30]"
    have "display_grid g 30 = Inr (canvas, 30, 30)"
      using display_grid_padded[OF shape, of 30] fits True
      by (simp add: canvas_def sh_def sw_def)
    moreover have "- 1 \<le> canvas ! i ! j \<and> canvas ! i ! j \<le> 9" if ij: "i < 30" "j < 30" for i j
    proof (cases "sh \<le> i \<and> i < sh + h \<and> sw \<le> j \<and> j < sw + w")
      case True
      then have "i - sh < h" "j - sw < w" by auto
      from cells[OF this] True ij show ?thesis by (simp add: canvas_def centred_def)
    next
      case False
      with ij show ?thesis unfolding canvas_def centred_def by auto
    qed
    ultimately show ?thesis by blast
  next
    case False
    then have "display_grid g 30 = Inr (g, h, w)"
      using display_grid_native[OF shape, of 30] by simp
    with cells show ?thesis by blast
  qed
  ultimately obtain a where "plot_grid empty_axes g [] 30 = Inr a"
    by blast
  then show ?thesis by (simp add: renders_def)
qed

text \<open>
  Claim C7. When \<open>plot_grid\<close> draws the grids of the challenge (and the solutions that are
  looked up), the composer returns a figure: it raises nothing. For a test example whose
  index is past the end of the solution list, or when there is no solution list, the
  cell in the solution column of that example holds a new axes with the text
  \<open>No Solution / Available\<close> and the title \<open>Test i Solution\<close>; for a test example with
  a solution the cell holds the axes that \<open>plot_grid\<close> draws for the solution grid.
\<close>

theorem placeholder_for_missing_solution:
  assumes tr: "\<forall>ex\<in>set (train ch). renders (ex_input ex) \<and> renders (ex_output ex)"
    and te: "\<forall>ex\<in>set (test ch). renders (ex_input ex)"
    and so: "\<forall>l i. sol = Some l \<and> i < length (test ch) \<and> i < length l \<longrightarrow> renders (l ! i)"
  shows "let C = max (length (train ch) * 2) (length (test ch) * 2) in
         \<exists>fig. visualize_challenge cid ch sol save_path =
                 Inr (case save_path of Some path \<Rightarrow> Saved path fig | None \<Rightarrow> Shown fig)
           \<and> (\<forall>i<length (test ch).
                if sol = None \<or> length (the sol) \<le> i
                then map_of (panels fig) (2, C, C + i * 2 + 2) =
                       Some (empty_axes\<lparr>texts := [''No Solution'' @ [CHR 0x0A] @ ''Available''],
                               xlim := (0, 1), ylim := (0, 1),
                               title := ''Test '' @ str_nat (i + 1) @ '' Solution''\<rparr>)
                else \<exists>ax. plot_grid empty_axes (the sol ! i)
                             (''Test '' @ str_nat (i + 1) @ '' Solution'') 30 = Inr ax
                         \<and> map_of (panels fig) (2, C, C + i * 2 + 2) = Some ax)"
proof -
  define C where "C = max (length (train ch) * 2) (length (test ch) * 2)"
  define fig where "fig = \<lparr>suptitle = ''ARC Challenge: '' @ cid, figsize = (of_nat C * (5 / 2), 6),
    panels = train_panels C 0 (train ch) @ test_panels C sol 0 (test ch)\<rparr>"
  have run: "compose_figure cid ch sol = Inr fig"
    unfolding fig_def C_def using tr te so by (intro compose_figure_run) auto
  have shown: "visualize_challenge cid ch sol save_path =
      Inr (case save_path of Some path \<Rightarrow> Saved path fig | None \<Rightarrow> Shown fig)"
    by (simp add: visualize_challenge_def run split: option.split)
  have panel: "map_of (panels fig) (2, C, C + i * 2 + 2) = Some (solution_panel sol i)"
    if "i < length (test ch)" for i
    using panel_of_test(2)[OF that, of "train ch" C sol] by (simp add: fig_def C_def)
  have cell: "if sol = None \<or> length (the sol) \<le> i
        then map_of (panels fig) (2, C, C + i * 2 + 2) =
               Some (empty_axes\<lparr>texts := [''No Solution'' @ [CHR 0x0A] @ ''Available''],
                       xlim := (0, 1), ylim := (0, 1),
                       title := ''Test '' @ str_nat (i + 1) @ '' Solution''\<rparr>)
        else \<exists>ax. plot_grid empty_axes (the sol ! i)
                     (''Test '' @ str_nat (i + 1) @ '' Solution'') 30 = Inr ax
                 \<and> map_of (panels fig) (2, C, C + i * 2 + 2) = Some ax"
    if i: "i < length (test ch)" for i
  proof (cases "sol = None \<or> length (the sol) \<le> i")
    case True
    then have "solution_panel sol i =
        empty_axes\<lparr>texts := [''No Solution'' @ [CHR 0x0A] @ ''Available''],
          xlim := (0, 1), ylim := (0, 1), title := ''Test '' @ str_nat (i + 1) @ '' Solution''\<rparr>"
      by (auto simp: solution_panel_def placeholder_axes_def no_solution_text_def split: option.split)
    with True panel[OF i] show ?thesis by simp
  next
    case False
    then obtain l where l: "sol = Some l" "i < length l" by auto
    then have "renders (l ! i)" using so i by blast
    then have "plot_grid empty_axes (l ! i) (''Test '' @ str_nat (i + 1) @ '' Solution'') 30 =
        Inr (drawn (l ! i) (''Test '' @ str_nat (i + 1) @ '' Solution''))"
      by (rule renders_drawn)
    moreover have "solution_panel sol i = drawn (l ! i) (''Test '' @ str_nat (i + 1) @ '' Solution'')"
      using l by (simp add: solution_panel_def)
    ultimately show ?thesis
      using False l panel[OF i] by simp
  qed
  show ?thesis
    unfolding Let_def C_def[symmetric] using shown cell by blast
qed

lemma second_row: "k < C \<Longrightarrow> (C + k) div C = 1 \<and> (C + k) mod C = (k::nat)"
  by (simp add: div_add_self1)

lemma renders_one_cell: "- 1 \<le> v \<Longrightarrow> v \<le> 9 \<Longrightarrow> renders [[v]]"
  using renders_palette_grid[of "[[v]]" 1 1] by (simp add: np_shape_def)

theorem placeholder_for_missing_solution_witness:
  "\<exists>fig. visualize_challenge ''007bbfb7''
            \<lparr>train = [\<lparr>ex_input = [[1]], ex_output = [[2]]\<rparr>],
              test = [\<lparr>ex_input = [[3]]\<rparr>, \<lparr>ex_input = [[4]]\<rparr>]\<rparr>
            (Some [[[5]]]) None = Inr (Shown fig)
     \<and> map_of (panels fig) (2, 4, 8) =
         Some (empty_axes\<lparr>texts := [''No Solution'' @ [CHR 0x0A] @ ''Available''],
                 xlim := (0, 1), ylim := (0, 1), title := ''Test 2 Solution''\<rparr>)
     \<and> (\<exists>ax. plot_grid empty_axes [[5]] ''Test 1 Solution'' 30 = Inr ax
            \<and> map_of (panels fig) (2, 4, 6) = Some ax)"
proof -
  let ?ch = "\<lparr>train = [\<lparr>ex_input = [[1]], ex_output = [[2]]\<rparr>],
              test = [\<lparr>ex_input = [[3]]\<rparr>, \<lparr>ex_input = [[4]]\<rparr>]\<rparr>"
  have tr: "\<forall>ex\<in>set (train ?ch). renders (ex_input ex) \<and> renders (ex_output ex)"
    and te: "\<forall>ex\<in>set (test ?ch). renders (ex_input ex)"
    by (simp_all add: renders_one_cell)
  have so: "\<forall>l i. Some [[[5]]] = Some l \<and> i < length (test ?ch) \<and> i < length l \<longrightarrow> renders (l ! i)"
    by (auto simp: renders_one_cell)
  have names: "str_nat (Suc 0) = ''1''" "str_nat (Suc (Suc 0)) = ''2''"
    by (simp_all add: str_nat.simps)
  from placeholder_for_missing_solution[OF tr te so, of "''007bbfb7''" None, unfolded Let_def]
  show ?thesis
    apply (elim exE conjE)
    subgoal for fig
      apply (rule exI[of _ fig])
      apply (frule spec[of _ 0])
      apply (drule spec[of _ 1])
      apply (simp add: names)
      done
    done
qed

lemma single_pair_panels:
  assumes "renders (ex_input ex)" "renders (ex_output ex)" "renders (ex_input tx)"
    "renders (l ! 0)" "0 < length l"
  shows "map fst (train_panels 2 0 [ex] @ test_panels 2 (Some l) 0 [tx]) =
           [(2, 2, 1), (2, 2, 2), (2, 2, 3), (2, 2, 4)]
         \<and> list_all (\<lambda>panel. texts (snd panel) = [])
              (train_panels 2 0 [ex] @ test_panels 2 (Some l) 0 [tx])"
proof -
  have shown: "solution_panel (Some l) 0 = drawn (l ! 0) (''Test '' @ str_nat (0 + 1) @ '' Solution'')"
    using assms(5) by (simp add: solution_panel_def)
  show ?thesis
    unfolding train_panels_single test_panels_single shown
    using assms(1-4) by (simp add: drawn_plain)
qed

text \<open>
  Claim C9. When \<open>plot_grid\<close> draws the grids of the challenge, the composer returns a
  figure whose axes all lie on one grid of two rows and
  \<open>max (2 * training examples) (2 * test examples)\<close> columns. The axes are, in order, the
  input and output of each training example at the cells \<open>2i+1\<close> and \<open>2i+2\<close>, which are
  the columns \<open>2i+1\<close> and \<open>2i+2\<close> of row 1, and the input and solution of each test example
  at the columns \<open>2i+1\<close> and \<open>2i+2\<close> of row 2. With one training pair, one test example and
  a solution for it the figure has the four axes of a two by two grid and none of them
  is a placeholder.
\<close>

theorem composer_layout:
  assumes tr: "\<forall>ex\<in>set (train ch). renders (ex_input ex) \<and> renders (ex_output ex)"
    and te: "\<forall>ex\<in>set (test ch). renders (ex_input ex)"
    and so: "\<forall>l i. sol = Some l \<and> i < length (test ch) \<and> i < length l \<longrightarrow> renders (l ! i)"
  shows "let C = max (length (train ch) * 2) (length (test ch) * 2) in
         \<exists>fig. compose_figure cid ch sol = Inr fig
           \<and> map fst (panels fig) =
               concat (map (\<lambda>i. [(2, C, i * 2 + 1), (2, C, i * 2 + 2)]) [0..<length (train ch)])
               @ concat (map (\<lambda>i. [(2, C, C + i * 2 + 1), (2, C, C + i * 2 + 2)]) [0..<length (test ch)])
           \<and> (\<forall>i<length (train ch).
                 cell_of_index C (i * 2 + 1) = (1, 2 * i + 1)
               \<and> cell_of_index C (i * 2 + 2) = (1, 2 * i + 2)
               \<and> (\<exists>ax. plot_grid empty_axes (ex_input (train ch ! i))
                           (''Train '' @ str_nat (i + 1) @ '' Input'') 30 = Inr ax
                       \<and> map_of (panels fig) (2, C, i * 2 + 1) = Some ax)
               \<and> (\<exists>ax. plot_grid empty_axes (ex_output (train ch ! i))
                           (''Train '' @ str_nat (i + 1) @ '' Output'') 30 = Inr ax
                       \<and> map_of (panels fig) (2, C, i * 2 + 2) = Some ax))
           \<and> (\<forall>i<length (test ch).
                 cell_of_index C (C + i * 2 + 1) = (2, 2 * i + 1)
               \<and> cell_of_index C (C + i * 2 + 2) = (2, 2 * i + 2)
               \<and> (\<exists>ax. plot_grid empty_axes (ex_input (test ch ! i))
                           (''Test '' @ str_nat (i + 1) @ '' Input'') 30 = Inr ax
                       \<and> map_of (panels fig) (2, C, C + i * 2 + 1) = Some ax)
               \<and> map_of (panels fig) (2, C, C + i * 2 + 2) = Some (solution_panel sol i))
           \<and> (length (train ch) = 1 \<and> length (test ch) = 1 \<and> sol \<noteq> None \<and> the sol \<noteq> [] \<longrightarrow>
                 map fst (panels fig) = [(2, 2, 1), (2, 2, 2), (2, 2, 3), (2, 2, 4)]
               \<and> list_all (\<lambda>panel. texts (snd panel) = []) (panels fig))"
proof -
  define C where "C = max (length (train ch) * 2) (length (test ch) * 2)"
  define fig where "fig = \<lparr>suptitle = ''ARC Challenge: '' @ cid, figsize = (of_nat C * (5 / 2), 6),
    panels = train_panels C 0 (train ch) @ test_panels C sol 0 (test ch)\<rparr>"
  have run: "compose_figure cid ch sol = Inr fig"
    unfolding fig_def C_def using tr te so by (intro compose_figure_run) auto
  have pf: "panels fig = train_panels C 0 (train ch) @ test_panels C sol 0 (test ch)"
    by (simp add: fig_def)
  have keys: "map fst (panels fig) =
               concat (map (\<lambda>i. [(2, C, i * 2 + 1), (2, C, i * 2 + 2)]) [0..<length (train ch)])
               @ concat (map (\<lambda>i. [(2, C, C + i * 2 + 1), (2, C, C + i * 2 + 2)]) [0..<length (test ch)])"
    unfolding pf by (simp add: keys_train_panels keys_test_panels)
  have wide: "2 * length (train ch) \<le> C" "2 * length (test ch) \<le> C"
    by (simp_all add: C_def)
  have train_cells: "cell_of_index C (i * 2 + 1) = (1, 2 * i + 1)
               \<and> cell_of_index C (i * 2 + 2) = (1, 2 * i + 2)
               \<and> (\<exists>ax. plot_grid empty_axes (ex_input (train ch ! i))
                           (''Train '' @ str_nat (i + 1) @ '' Input'') 30 = Inr ax
                       \<and> map_of (panels fig) (2, C, i * 2 + 1) = Some ax)
               \<and> (\<exists>ax. plot_grid empty_axes (ex_output (train ch ! i))
                           (''Train '' @ str_nat (i + 1) @ '' Output'') 30 = Inr ax
                       \<and> map_of (panels fig) (2, C, i * 2 + 2) = Some ax)"
    if i: "i < length (train ch)" for i
  proof (intro conjI exI)
    have small: "2 * i + 1 < C" using i wide(1) by simp
    show "cell_of_index C (i * 2 + 1) = (1, 2 * i + 1)"
      using small by (simp add: cell_of_index_def mult.commute)
    show "cell_of_index C (i * 2 + 2) = (1, 2 * i + 2)"
      using small by (simp add: cell_of_index_def mult.commute)
    have r: "renders (ex_input (train ch ! i))" "renders (ex_output (train ch ! i))"
      using tr i by simp_all
    show "plot_grid empty_axes (ex_input (train ch ! i)) (''Train '' @ str_nat (i + 1) @ '' Input'') 30 =
        Inr (drawn (ex_input (train ch ! i)) (''Train '' @ str_nat (i + 1) @ '' Input''))"
      using r(1) by (rule renders_drawn)
    show "plot_grid empty_axes (ex_output (train ch ! i)) (''Train '' @ str_nat (i + 1) @ '' Output'') 30 =
        Inr (drawn (ex_output (train ch ! i)) (''Train '' @ str_nat (i + 1) @ '' Output''))"
      using r(2) by (rule renders_drawn)
    show "map_of (panels fig) (2, C, i * 2 + 1) =
        Some (drawn (ex_input (train ch ! i)) (''Train '' @ str_nat (i + 1) @ '' Input''))"
      unfolding pf using i by (rule panel_of_train(1))
    show "map_of (panels fig) (2, C, i * 2 + 2) =
        Some (drawn (ex_output (train ch ! i)) (''Train '' @ str_nat (i + 1) @ '' Output''))"
      unfolding pf using i by (rule panel_of_train(2))
  qed
  have test_cells: "cell_of_index C (C + i * 2 + 1) = (2, 2 * i + 1)
               \<and> cell_of_index C (C + i * 2 + 2) = (2, 2 * i + 2)
               \<and> (\<exists>ax. plot_grid empty_axes (ex_input (test ch ! i))
                           (''Test '' @ str_nat (i + 1) @ '' Input'') 30 = Inr ax
                       \<and> map_of (panels fig) (2, C, C + i * 2 + 1) = Some ax)
               \<and> map_of (panels fig) (2, C, C + i * 2 + 2) = Some (solution_panel sol i)"
    if i: "i < length (test ch)" for i
  proof (intro conjI exI)
    have small: "2 * i + 1 < C" using i wide(2) by simp
    have first: "(C + i * 2) div C = 1 \<and> (C + i * 2) mod C = i * 2"
      using small by (intro second_row) simp
    have second: "(C + (i * 2 + 1)) div C = 1 \<and> (C + (i * 2 + 1)) mod C = i * 2 + 1"
      using small by (intro second_row) simp
    have "cell_of_index C (C + i * 2 + 1) = ((C + i * 2) div C + 1, (C + i * 2) mod C + 1)"
      by (simp add: cell_of_index_def)
    also have "\<dots> = (2, 2 * i + 1)"
      unfolding first[THEN conjunct1] first[THEN conjunct2] by simp
    finally show "cell_of_index C (C + i * 2 + 1) = (2, 2 * i + 1)" .
    have "cell_of_index C (C + i * 2 + 2) =
        ((C + (i * 2 + 1)) div C + 1, (C + (i * 2 + 1)) mod C + 1)"
      by (simp add: cell_of_index_def)
    also have "\<dots> = (2, 2 * i + 2)"
      unfolding second[THEN conjunct1] second[THEN conjunct2] by simp
    finally show "cell_of_index C (C + i * 2 + 2) = (2, 2 * i + 2)" .
    have r: "renders (ex_input (test ch ! i))"
      using te i by simp
    show "plot_grid empty_axes (ex_input (test ch ! i)) (''Test '' @ str_nat (i + 1) @ '' Input'') 30 =
        Inr (drawn (ex_input (test ch ! i)) (''Test '' @ str_nat (i + 1) @ '' Input''))"
      using r by (rule renders_drawn)
    show "map_of (panels fig) (2, C, C + i * 2 + 1) =
        Some (drawn (ex_input (test ch ! i)) (''Test '' @ str_nat (i + 1) @ '' Input''))"
      unfolding pf using i wide(1) by (rule panel_of_test(1))
    show "map_of (panels fig) (2, C, C + i * 2 + 2) = Some (solution_panel sol i)"
      unfolding pf using i wide(1) by (rule panel_of_test(2))
  qed
  have single: "map fst (panels fig) = [(2, 2, 1), (2, 2, 2), (2, 2, 3), (2, 2, 4)]
               \<and> list_all (\<lambda>panel. texts (snd panel) = []) (panels fig)"
    if one: "length (train ch) = 1" "length (test ch) = 1" and given: "sol \<noteq> None" "the sol \<noteq> []"
  proof -
    have "\<exists>ex. train ch = [ex]" using one(1) by (cases "train ch") simp_all
    then obtain ex where ex: "train ch = [ex]" ..
    have "\<exists>tx. test ch = [tx]" using one(2) by (cases "test ch") simp_all
    then obtain tx where tx: "test ch = [tx]" ..
    from given(1) obtain l where l: "sol = Some l" by (cases sol) simp_all
    have l0: "0 < length l" using given(2) l by simp
    have C2: "C = 2" unfolding C_def one by simp
    have "renders (ex_input ex) \<and> renders (ex_output ex)"
      using tr ex by simp
    moreover have "renders (ex_input tx)"
      using te tx by simp
    moreover have "renders (l ! 0)"
      using so l l0 tx by simp
    ultimately show ?thesis
      unfolding pf ex tx C2 l using l0 by (intro single_pair_panels) simp_all
  qed
  show ?thesis
    unfolding Let_def C_def[symmetric]
  proof (intro exI[of _ fig] conjI allI impI)
    show "compose_figure cid ch sol = Inr fig" by (rule run)
    show "map fst (panels fig) =
               concat (map (\<lambda>i. [(2, C, i * 2 + 1), (2, C, i * 2 + 2)]) [0..<length (train ch)])
               @ concat (map (\<lambda>i. [(2, C, C + i * 2 + 1), (2, C, C + i * 2 + 2)]) [0..<length (test ch)])"
      by (rule keys)
  qed (use train_cells test_cells single in blast)+
qed

theorem composer_layout_witness:
  "\<exists>fig. compose_figure ''007bbfb7''
            \<lparr>train = [\<lparr>ex_input = [[0, 7, 7], [7, 7, 7], [0, 7, 7]],
                        ex_output = [[0, 0, 7], [7, 7, 7], [0, 0, 7]]\<rparr>],
              test = [\<lparr>ex_input = [[7, 0, 7], [7, 0, 7], [7, 7, 0]]\<rparr>]\<rparr>
            (Some [[[7, 0, 7], [0, 0, 0], [7, 7, 0]]]) = Inr fig
     \<and> map fst (panels fig) = [(2, 2, 1), (2, 2, 2), (2, 2, 3), (2, 2, 4)]
     \<and> list_all (\<lambda>panel. texts (snd panel) = []) (panels fig)
     \<and> cell_of_index 2 1 = (1, 1) \<and> cell_of_index 2 2 = (1, 2)
     \<and> cell_of_index 2 3 = (2, 1) \<and> cell_of_index 2 4 = (2, 2)"
proof -
  let ?ch = "\<lparr>train = [\<lparr>ex_input = [[0, 7, 7], [7, 7, 7], [0, 7, 7]],
                        ex_output = [[0, 0, 7], [7, 7, 7], [0, 0, 7]]\<rparr>],
              test = [\<lparr>ex_input = [[7, 0, 7], [7, 0, 7], [7, 7, 0]]\<rparr>]\<rparr>"
  have r: "renders [[a, b, c], [d, e, f], [g, h, i]]"
    if "\<forall>v\<in>{a, b, c, d, e, f, g, h, i}. - 1 \<le> v \<and> v \<le> 9" for a b c d e f g h i
    using that renders_palette_grid[of "[[a, b, c], [d, e, f], [g, h, i]]" 3 3]
    by (simp add: np_shape_def)
  have tr: "\<forall>ex\<in>set (train ?ch). renders (ex_input ex) \<and> renders (ex_output ex)"
    and te: "\<forall>ex\<in>set (test ?ch). renders (ex_input ex)"
    by (simp_all add: r)
  have so: "\<forall>l i. Some [[[7, 0, 7], [0, 0, 0], [7, 7, 0]]] = Some l \<and> i < length (test ?ch) \<and> i < length l
              \<longrightarrow> renders (l ! i)"
    by (auto simp: r)
  have cells: "cell_of_index 2 1 = (1, 1)" "cell_of_index 2 2 = (1, 2)"
    "cell_of_index 2 3 = (2, 1)" "cell_of_index 2 4 = (2, 2)"
    by (simp_all add: cell_of_index_def)
  from composer_layout[OF tr te so, of "''007bbfb7''", unfolded Let_def]
  show ?thesis
    apply (elim exE conjE)
    subgoal for fig
      apply (rule exI[of _ fig])
      apply (simp add: cells)
      done
    done
qed

section \<open>Random selection of challenges\<close>

lemma nth_key_lookup:
  assumes "distinct (map fst cs)" "j < length cs"
  shows "map_of cs (fst (cs ! j)) = Some (snd (cs ! j))"
proof -
  have "(fst (cs ! j), snd (cs ! j)) \<in> set cs"
    using assms(2) by simp
  with assms(1) show ?thesis by (rule map_of_is_SomeI)
qed

lemma visualize_all:
  assumes keys: "distinct (map fst cs)"
    and ok: "\<And>j. j \<in> set picks \<Longrightarrow> j < length cs \<and>
               compose_figure (fst (cs ! j)) (snd (cs ! j)) (map_of sols (fst (cs ! j))) = Inr (fig_of j)"
  shows "foldM (visualize_one cs sols dir) (map (\<lambda>j. fst (cs ! j)) picks) acc =
           Inr (acc @ map (\<lambda>j. Saved (challenge_path dir (fst (cs ! j))) (fig_of j)) picks)"
  using ok
proof (induction picks arbitrary: acc)
  case Nil
  then show ?case by simp
next
  case (Cons j picks)
  have j: "j < length cs"
    and fig: "compose_figure (fst (cs ! j)) (snd (cs ! j)) (map_of sols (fst (cs ! j))) = Inr (fig_of j)"
    using Cons.prems[of j] by simp_all
  have step: "visualize_one cs sols dir (fst (cs ! j)) acc =
      Inr (acc @ [Saved (challenge_path dir (fst (cs ! j))) (fig_of j)])"
    by (simp add: visualize_one_def nth_key_lookup[OF keys j] visualize_challenge_def fig Let_def)
  have rest: "foldM (visualize_one cs sols dir) (map (\<lambda>j. fst (cs ! j)) picks)
        (acc @ [Saved (challenge_path dir (fst (cs ! j))) (fig_of j)]) =
      Inr ((acc @ [Saved (challenge_path dir (fst (cs ! j))) (fig_of j)])
           @ map (\<lambda>j. Saved (challenge_path dir (fst (cs ! j))) (fig_of j)) picks)"
    using Cons.prems by (intro Cons.IH) simp
  show ?case
    by (simp add: step rest)
qed

lemma distinct_picked_ids:
  assumes "distinct (map fst cs)" "distinct picks" "\<And>j. j \<in> set picks \<Longrightarrow> j < length cs"
  shows "distinct (map (\<lambda>j. fst (cs ! j)) picks)"
proof -
  have "inj_on (\<lambda>j. fst (cs ! j)) (set picks)"
  proof (rule inj_onI)
    fix a b assume a: "a \<in> set picks" and b: "b \<in> set picks"
      and eq: "fst (cs ! a) = fst (cs ! b)"
    have same: "map fst cs ! a = map fst cs ! b"
      using eq assms(3)[OF a] assms(3)[OF b] by simp
    have range: "a < length (map fst cs)" "b < length (map fst cs)"
      using assms(3)[OF a] assms(3)[OF b] by simp_all
    from nth_eq_iff_index_eq[OF assms(1) range] same show "a = b"
      by blast
  qed
  with assms(2) show ?thesis by (simp add: distinct_map)
qed

lemma inj_challenge_path: "inj (challenge_path dir)"
  by (rule injI) (simp add: challenge_path_def)

text \<open>
  Claim C10, as amended. For a challenge mapping with distinct identifiers, a sample count
  that is not negative and positions drawn as \<open>random.sample\<close> promises, when the figure
  of every drawn challenge can be composed, \<open>visualize_random_challenges\<close> returns: the
  identifiers selected are \<open>min n (number of challenges)\<close> pairwise distinct identifiers
  of the mapping, and the files written are, in order, one per selected identifier, the
  figure of that challenge saved as \<open>challenge_<id>.png\<close> in the directory, under
  pairwise distinct names.
\<close>

theorem random_challenges_files:
  assumes keys: "distinct (map fst challenges)"
    and count: "0 \<le> n_samples"
    and drawn: "sample_positions picks (length challenges) (min n_samples (int (length challenges)))"
    and composed: "\<forall>j\<in>set picks. \<exists>fig.
        compose_figure (fst (challenges ! j)) (snd (challenges ! j))
          (map_of solutions (fst (challenges ! j))) = Inr fig"
  shows "let dir = (case save_dir of None \<Rightarrow> create_timestamped_directory now | Some d \<Rightarrow> d);
             ids = map (\<lambda>j. fst (challenges ! j)) picks
         in \<exists>written.
              visualize_random_challenges picks now challenges solutions n_samples save_dir
                = Inr (written, dir)
            \<and> length ids = min (nat n_samples) (length challenges)
            \<and> distinct ids \<and> set ids \<subseteq> fst ` set challenges
            \<and> length written = length ids
            \<and> (\<forall>k<length ids. \<exists>fig.
                  compose_figure (ids ! k) (snd (challenges ! (picks ! k)))
                    (map_of solutions (ids ! k)) = Inr fig
                \<and> written ! k = Saved (challenge_path dir (ids ! k)) fig)
            \<and> distinct (map (challenge_path dir) ids)"
proof -
  define dir where "dir = (case save_dir of None \<Rightarrow> create_timestamped_directory now | Some d \<Rightarrow> d)"
  define ids where "ids = map (\<lambda>j. fst (challenges ! j)) picks"
  define fig_of where "fig_of j = projr (compose_figure (fst (challenges ! j)) (snd (challenges ! j))
          (map_of solutions (fst (challenges ! j))))" for j
  define written where "written = map (\<lambda>j. Saved (challenge_path dir (fst (challenges ! j))) (fig_of j)) picks"
  have len: "int (length picks) = min n_samples (int (length challenges))"
    and dist: "distinct picks" and inside: "\<And>j. j \<in> set picks \<Longrightarrow> j < length challenges"
    using drawn by (simp_all add: sample_positions_def list_all_iff)
  have fig: "compose_figure (fst (challenges ! j)) (snd (challenges ! j))
          (map_of solutions (fst (challenges ! j))) = Inr (fig_of j)" if "j \<in> set picks" for j
    using composed that by (auto simp: fig_of_def)
  have sample: "random_sample picks (map fst challenges) (min n_samples (int (length challenges))) = Inr ids"
  proof -
    have "map (\<lambda>j. map fst challenges ! j) picks = ids"
      unfolding ids_def using inside by (intro map_cong refl) simp
    then show ?thesis
      using count by (simp add: random_sample_def)
  qed
  have loop: "foldM (visualize_one challenges solutions dir) ids [] = Inr written"
    unfolding ids_def written_def
    using visualize_all[OF keys, of picks solutions fig_of dir "[]"] inside fig by simp
  have run: "visualize_random_challenges picks now challenges solutions n_samples save_dir
               = Inr (written, dir)"
    unfolding visualize_random_challenges_def Let_def dir_def[symmetric] sample and_then_Inr loop
    by (rule refl)
  have n: "length ids = min (nat n_samples) (length challenges)"
    using len count by (simp add: ids_def)
  have d: "distinct ids"
    unfolding ids_def using keys dist inside by (rule distinct_picked_ids)
  have sub: "set ids \<subseteq> fst ` set challenges"
    using inside by (auto simp: ids_def)
  have lw: "length written = length ids"
    by (simp add: written_def ids_def)
  have each: "\<exists>fig. compose_figure (ids ! k) (snd (challenges ! (picks ! k)))
                    (map_of solutions (ids ! k)) = Inr fig
                \<and> written ! k = Saved (challenge_path dir (ids ! k)) fig" if "k < length ids" for k
  proof -
    have k: "k < length picks" using that by (simp add: ids_def)
    then have "picks ! k \<in> set picks" by simp
    from fig[OF this] k show ?thesis
      by (simp add: ids_def written_def)
  qed
  have names: "distinct (map (challenge_path dir) ids)"
    using d inj_challenge_path[of dir] by (simp add: distinct_map inj_on_def inj_def)
  show ?thesis
    unfolding Let_def dir_def[symmetric] ids_def[symmetric]
    using run n d sub lw each names by (intro exI[of _ written]) simp
qed

theorem random_challenges_files_witness:
  "distinct (map fst
     [(''007bbfb7'', \<lparr>train = [\<lparr>ex_input = [[1]], ex_output = [[2]]\<rparr>], test = [\<lparr>ex_input = [[3]]\<rparr>]\<rparr>),
      (''00d62c1b'', \<lparr>train = [\<lparr>ex_input = [[4]], ex_output = [[5]]\<rparr>], test = [\<lparr>ex_input = [[6]]\<rparr>]\<rparr>)])
   \<and> (0::int) \<le> 1
   \<and> sample_positions [1] 2 (min 1 2)
   \<and> (\<exists>written.
         visualize_random_challenges [1] ''20250101_120000''
           [(''007bbfb7'', \<lparr>train = [\<lparr>ex_input = [[1]], ex_output = [[2]]\<rparr>], test = [\<lparr>ex_input = [[3]]\<rparr>]\<rparr>),
            (''00d62c1b'', \<lparr>train = [\<lparr>ex_input = [[4]], ex_output = [[5]]\<rparr>], test = [\<lparr>ex_input = [[6]]\<rparr>]\<rparr>)]
           [] 1 (Some ''out'') = Inr (written, ''out'')
       \<and> length written = 1
       \<and> (\<exists>fig. written ! 0 = Saved ''out/challenge_00d62c1b.png'' fig))"
proof -
  let ?cs = "[(''007bbfb7'', \<lparr>train = [\<lparr>ex_input = [[1]], ex_output = [[2]]\<rparr>], test = [\<lparr>ex_input = [[3]]\<rparr>]\<rparr>),
      (''00d62c1b'', \<lparr>train = [\<lparr>ex_input = [[4]], ex_output = [[5]]\<rparr>], test = [\<lparr>ex_input = [[6]]\<rparr>]\<rparr>)]"
  have keys: "distinct (map fst ?cs)"
    by simp
  have drawn: "sample_positions [1] (length ?cs) (min 1 (int (length ?cs)))"
    by (simp add: sample_positions_def)
  have "\<exists>fig. compose_figure ''00d62c1b''
      \<lparr>train = [\<lparr>ex_input = [[4]], ex_output = [[5]]\<rparr>], test = [\<lparr>ex_input = [[6]]\<rparr>]\<rparr> None = Inr fig"
    by (rule exI, rule compose_figure_run) (auto simp: renders_one_cell)
  then have composed: "\<forall>j\<in>set [1]. \<exists>fig.
        compose_figure (fst (?cs ! j)) (snd (?cs ! j)) (map_of [] (fst (?cs ! j))) = Inr fig"
    by simp
  have count: "(0::int) \<le> 1" by simp
  from random_challenges_files[OF keys count drawn composed,
      where save_dir = "Some ''out''" and now = "''20250101_120000''", unfolded Let_def]
  show ?thesis
    apply (elim exE conjE)
    subgoal for written
      apply (intro conjI)
         apply simp
        apply simp
       apply (simp add: sample_positions_def)
      apply (rule exI[of _ written])
      apply (drule spec[of _ 0])
      apply (simp add: challenge_path_def)
      apply blast
      done
    done
qed

text \<open>
  Claim C10 as stated fails for a negative sample count: \<open>min(n_samples, len(challenges))\<close>
  is then negative and \<open>random.sample\<close> raises \<open>ValueError\<close>, whatever the generator draws.
\<close>

theorem random_challenges_negative_counterexample:
  "visualize_random_challenges [] ''20250101_120000''
     [(''007bbfb7'', \<lparr>train = [\<lparr>ex_input = [[1]], ex_output = [[2]]\<rparr>],
                       test = [\<lparr>ex_input = [[3]]\<rparr>]\<rparr>)] [] (- 1) None = Inl ValueError"
  by (simp add: visualize_random_challenges_def random_sample_def)

end
